theory Spec2Isabelle
  imports Complex_Main
begin

section \<open>Shared types (src/types/index.ts)\<close>

text \<open>
  A JavaScript \<open>number\<close> that the bridge only carries (trim bounds, frame rate) is a
  \<open>real\<close>; a number that is a count, a size or a clock reading is a \<open>nat\<close>; a
  progress percentage is an \<open>int\<close>. Byte buffers (\<open>ArrayBuffer\<close>, \<open>Uint8Array\<close>) are
  lists of bytes, each a \<open>nat\<close> below 256.
\<close>

type_synonym bytes = "nat list"

datatype kind = Trim | Frames | Convert | Merge

datatype trimMode = Fast | Accurate

datatype quality = Low | Medium | High

datatype mergeFormat = Mp4 | Webm

record TrimSettings =
  startTime :: real
  endTime :: real
  mode :: trimMode

record FrameSettings =
  fps :: real

record ConvertSettings =
  quality :: quality

record MergeSettings =
  format :: mergeFormat

datatype settings =
    STrim TrimSettings
  | SFrames FrameSettings
  | SConvert ConvertSettings
  | SMerge MergeSettings

section \<open>Number formatting\<close>

text \<open>\<open>Number.prototype.toString\<close> and template interpolation, on integers.\<close>

definition digit :: "nat \<Rightarrow> char" where
  "digit d = ''0123456789'' ! (d mod 10)"

fun showNat :: "nat \<Rightarrow> string" where
  "showNat n = (if n < 10 then [digit n] else showNat (n div 10) @ [digit n])"

declare showNat.simps [simp del]

definition showInt :: "int \<Rightarrow> string" where
  "showInt i = (if i < 0 then CHR ''-'' # showNat (nat (- i)) else showNat (nat i))"

section \<open>The worker (src/workers/ffmpeg.worker.ts)\<close>

subsection \<open>executeConvert\<close>

text \<open>
  \<open>const crfMap: Record<string, number> = { low: 40, medium: 32, high: 24 }\<close>, looked
  up with the quality tier's string; \<open>crfMap[settings.quality] || 32\<close> takes 32 when
  the key is missing or the entry is 0.
\<close>

definition qualityKey :: "quality \<Rightarrow> string" where
  "qualityKey q = (case q of Low \<Rightarrow> ''low'' | Medium \<Rightarrow> ''medium'' | High \<Rightarrow> ''high'')"

definition crfMap :: "(string \<times> nat) list" where
  "crfMap = [(''low'', 40), (''medium'', 32), (''high'', 24)]"

definition convertCrf :: "ConvertSettings \<Rightarrow> nat" where
  "convertCrf s =
     (case map_of crfMap (qualityKey (quality s)) of
        None \<Rightarrow> 32
      | Some v \<Rightarrow> if v = 0 then 32 else v)"

definition convertInputName :: string where
  "convertInputName = ''input.mp4''"

definition convertOutputName :: string where
  "convertOutputName = ''output.webm''"

definition convertArgs :: "ConvertSettings \<Rightarrow> string list" where
  "convertArgs s =
     [''-i'', convertInputName,
      ''-c:v'', ''libvpx-vp9'',
      ''-b:v'', ''0'',
      ''-crf'', showNat (convertCrf s),
      ''-c:a'', ''libopus'',
      ''-deadline'', ''realtime'',
      ''-cpu-used'', ''4'',
      convertOutputName]"

text \<open>The value that follows an option flag in an ffmpeg argument list.\<close>

fun argOf :: "string \<Rightarrow> string list \<Rightarrow> string option" where
  "argOf k (a # b # rest) = (if a = k then Some b else argOf k (b # rest))"
| "argOf k _ = None"

subsection \<open>executeMerge, concatenation phase\<close>

text \<open>
  The engine is a parameter: \<open>ffmpeg.exec(args)\<close> either resolves or throws, and may
  answer differently the second time it is given the same arguments, so it is a
  function from its own state and the arguments to an outcome (\<open>True\<close>: resolved) and
  a new state. The worker state records every argument list handed to the engine
  and every message sent to the main thread.
\<close>

type_synonym 'e engine = "'e \<Rightarrow> string list \<Rightarrow> bool \<times> 'e"

record 'e wstate =
  eng :: 'e
  execs :: "string list list"
  sentLogs :: "string list"

definition exec :: "'e engine \<Rightarrow> string list \<Rightarrow> 'e wstate \<Rightarrow> bool \<times> 'e wstate" where
  "exec f args s =
     (let (ok, e') = f (eng s) args
      in (ok, s\<lparr>eng := e', execs := execs s @ [args]\<rparr>))"

definition mergeOutputName :: "MergeSettings \<Rightarrow> string" where
  "mergeOutputName st = (if format st = Webm then ''merged.webm'' else ''merged.mp4'')"

text \<open>The first \<open>mergeArgs\<close> (the source's comment: "Try fast copy first").\<close>

definition mergeArgsFirst :: "MergeSettings \<Rightarrow> string list" where
  "mergeArgsFirst st =
     (if format st = Mp4 then
        [''-f'', ''concat'', ''-safe'', ''0'', ''-i'', ''concat_list.txt'',
         ''-c'', ''copy'',
         mergeOutputName st]
      else
        [''-f'', ''concat'', ''-safe'', ''0'', ''-i'', ''concat_list.txt'',
         ''-c:v'', ''libvpx-vp9'', ''-b:v'', ''0'', ''-crf'', ''32'',
         ''-c:a'', ''libopus'',
         mergeOutputName st])"

text \<open>
  \<open>mergeArgs\<close> in the \<open>catch\<close> block: reassigned for mp4 only, so for webm it is
  still the first list.
\<close>

definition mergeArgsFallback :: "MergeSettings \<Rightarrow> string list" where
  "mergeArgsFallback st =
     (if format st = Mp4 then
        [''-f'', ''concat'', ''-safe'', ''0'', ''-i'', ''concat_list.txt'',
         ''-c:v'', ''libx264'', ''-preset'', ''veryfast'', ''-crf'', ''23'',
         ''-c:a'', ''aac'',
         mergeOutputName st]
      else mergeArgsFirst st)"

text \<open>
  \<open>try { await ffmpeg.exec(mergeArgs) } catch { log; mergeArgs = ...; await
  ffmpeg.exec(mergeArgs) }\<close>. The result is \<open>True\<close> when the phase goes on to read
  the output, \<open>False\<close> when the second \<open>exec\<close> throws out of \<open>executeMerge\<close>.
\<close>

definition mergeConcat :: "'e engine \<Rightarrow> MergeSettings \<Rightarrow> 'e wstate \<Rightarrow> bool \<times> 'e wstate" where
  "mergeConcat f st s =
     (let (ok, s1) = exec f (mergeArgsFirst st) s
      in if ok then (True, s1)
         else exec f (mergeArgsFallback st)
                (s1\<lparr>sentLogs := sentLogs s1 @ [''Copy failed, re-encoding...'']\<rparr>))"

text \<open>
  The codec options of an ffmpeg argument list. \<open>-c copy\<close> copies every stream
  without re-encoding, and \<open>-c:v copy\<close> or \<open>-c:a copy\<close> copies the video or the
  audio stream; a codec option that names an encoder re-encodes its stream with that
  encoder. A list is a stream copy when it copies both streams, and it re-encodes with
  the video encoder \<open>v\<close> and the audio encoder \<open>a\<close> when it names these two, neither
  of them \<open>copy\<close>, and has no \<open>-c\<close> for all streams.
\<close>

definition isStreamCopy :: "string list \<Rightarrow> bool" where
  "isStreamCopy args =
     (argOf ''-c'' args = Some ''copy'' \<or>
      (argOf ''-c:v'' args = Some ''copy'' \<and> argOf ''-c:a'' args = Some ''copy''))"

definition reencodesWith :: "string \<Rightarrow> string \<Rightarrow> string list \<Rightarrow> bool" where
  "reencodesWith v a args =
     (argOf ''-c:v'' args = Some v \<and> argOf ''-c:a'' args = Some a \<and>
      v \<noteq> ''copy'' \<and> a \<noteq> ''copy'' \<and> argOf ''-c'' args = None)"

section \<open>The bridge (src/lib/ffmpegClient.ts)\<close>

subsection \<open>Messages, results and the environment\<close>

datatype ProcessingStatus = SIdle | SLoading | SProcessing | SComplete | SError

record ProcessingState =
  psStatus :: ProcessingStatus
  psProgress :: int
  psMessage :: string
  psLogs :: "string list"

datatype responseType = RLoaded | RProgress | RLog | RComplete | RError

text \<open>
  \<open>WorkerResponse.payload\<close>: every field is optional, and so is the payload. A frame
  of the worker is a pair of its name and its bytes.
\<close>

record Payload =
  pProgress :: "int option"
  pMessage :: "string option"
  pData :: "bytes option"
  pFrames :: "(string \<times> bytes) list option"
  pError :: "string option"
  pStep :: "string option"

record WorkerResponse =
  rtype :: responseType
  payload :: "Payload option"

text \<open>
  A \<open>File\<close> is what \<open>readFileAsArrayBuffer\<close> makes of it: its bytes, or the
  \<open>FileReader\<close> error. Of a \<open>Clip\<close> the bridge reads the file and the trim bounds.
\<close>

datatype File = Readable bytes | Unreadable

record Clip =
  clipFile :: File
  clipStart :: real
  clipEnd :: real

record FFmpegCommand =
  cmdType :: kind
  inputData :: "bytes option"
  clips :: "(bytes \<times> real \<times> real) list option"
  settings :: settings

datatype WorkerMessage = MLoad | MExecute FFmpegCommand | MCancel

record Blob =
  blobParts :: bytes
  blobType :: string

record FrameData =
  frameName :: string
  frameBytes :: bytes
  frameUrl :: string

record ExportResult =
  resId :: string
  resType :: kind
  resFilename :: string
  resSize :: nat
  resCreatedAt :: nat
  resData :: bytes
  objectUrl :: string
  resFrames :: "FrameData list option"

text \<open>
  A promise is an index into the store of promise states. \<open>resolve\<close> and \<open>reject\<close>
  change a pending promise and nothing else.
\<close>

datatype pvalue = VUnit | VResult ExportResult

datatype pstate = Pending | Resolved pvalue | Rejected string

text \<open>
  The closures registered with \<open>addEventListener\<close>, each with the promise whose
  \<open>resolve\<close> and \<open>reject\<close> it captured (and, for merge, the settings).
\<close>

datatype listener =
    HandleLoad nat
  | TrimResult nat
  | FramesResult nat
  | ConvertResult nat
  | MergeResult MergeSettings nat

record workerRec =
  listeners :: "listener list"
  posted :: "WorkerMessage list"
  terminated :: bool

text \<open>An asynchronous command that is suspended at an \<open>await\<close>.\<close>

datatype command =
    CmdTrim File TrimSettings
  | CmdFrames File FrameSettings
  | CmdConvert File ConvertSettings
  | CmdMerge "Clip list" MergeSettings

record suspended =
  susCmd :: command
  susCallback :: nat
  susPromise :: nat

text \<open>
  What the browser answers to one run of a \<open>handleResult\<close>: the value of
  \<open>crypto.randomUUID()\<close>, the reading of \<open>Date.now()\<close> and that of \<open>new Date()\<close>.
\<close>

record env =
  uuid :: string
  now :: nat
  created :: nat

text \<open>
  The state: the fields of \<open>FFmpegClient\<close>, then the browser around it. Workers,
  promises and timers are numbered in the order of their creation; a progress callback
  is a number, and \<open>trace\<close> lists every call of a callback with its argument (the
  \<open>logs\<close> array as it is at the call). \<open>sab\<close> says whether \<open>SharedArrayBuffer\<close> is
  defined. \<open>awaitingLoad\<close> holds the commands suspended at \<open>await this.load\<close>, with
  the promise they wait for, and \<open>reading\<close> those suspended at the file read.
\<close>

record world =
  worker :: "nat option"
  isLoaded :: bool
  loadPromise :: "nat option"
  currentCallback :: "nat option"
  logs :: "string list"
  timeoutId :: "nat option"
  sab :: bool
  workers :: "workerRec list"
  promises :: "pstate list"
  timers :: "(nat \<times> nat) list"
  nextTimer :: nat
  blobs :: "(string \<times> Blob) list"
  trace :: "(nat \<times> ProcessingState) list"
  awaitingLoad :: "(nat \<times> suspended) list"
  reading :: "suspended list"

subsection \<open>Browser primitives\<close>

definition callCb :: "nat \<Rightarrow> ProcessingState \<Rightarrow> world \<Rightarrow> world" where
  "callCb cb s w = w\<lparr>trace := trace w @ [(cb, s)]\<rparr>"

definition settle :: "nat \<Rightarrow> pstate \<Rightarrow> world \<Rightarrow> world" where
  "settle p v w =
     (if p < length (promises w) \<and> promises w ! p = Pending
      then w\<lparr>promises := (promises w)[p := v]\<rparr> else w)"

definition newPromise :: "world \<Rightarrow> nat \<times> world" where
  "newPromise w = (length (promises w), w\<lparr>promises := promises w @ [Pending]\<rparr>)"

definition addListener :: "nat \<Rightarrow> listener \<Rightarrow> world \<Rightarrow> world" where
  "addListener k l w =
     (if k < length (workers w)
      then w\<lparr>workers := (workers w)[k := (workers w ! k)\<lparr>listeners := listeners (workers w ! k) @ [l]\<rparr>]\<rparr>
      else w)"

text \<open>\<open>this.worker?.removeEventListener('message', l)\<close>: on the current worker.\<close>

definition removeListener :: "listener \<Rightarrow> world \<Rightarrow> world" where
  "removeListener l w =
     (case worker w of
        None \<Rightarrow> w
      | Some k \<Rightarrow>
          if k < length (workers w)
          then w\<lparr>workers := (workers w)[k := (workers w ! k)\<lparr>listeners := removeAll l (listeners (workers w ! k))\<rparr>]\<rparr>
          else w)"

definition postMessage :: "nat \<Rightarrow> WorkerMessage \<Rightarrow> world \<Rightarrow> world" where
  "postMessage k m w =
     (if k < length (workers w)
      then w\<lparr>workers := (workers w)[k := (workers w ! k)\<lparr>posted := posted (workers w ! k) @ [m]\<rparr>]\<rparr>
      else w)"

text \<open>
  \<open>URL.createObjectURL(blob)\<close>: a fresh URL that addresses the blob. The browser
  chooses the URL; here it is numbered.
\<close>

definition createObjectURL :: "Blob \<Rightarrow> world \<Rightarrow> string \<times> world" where
  "createObjectURL b w =
     (let u = ''blob:'' @ showNat (length (blobs w))
      in (u, w\<lparr>blobs := blobs w @ [(u, b)]\<rparr>))"

text \<open>JavaScript's \<open>s || d\<close> on an optional string: \<open>undefined\<close> and \<open>''\<close> are falsy.\<close>

definition strOr :: "string option \<Rightarrow> string \<Rightarrow> string" where
  "strOr s d = (case s of None \<Rightarrow> d | Some x \<Rightarrow> if x = [] then d else x)"

text \<open>\<open>new Error(m).message\<close>, where \<open>m\<close> may be \<open>undefined\<close>.\<close>

definition errorMessage :: "string option \<Rightarrow> string" where
  "errorMessage m = (case m of None \<Rightarrow> [] | Some x \<Rightarrow> x)"

definition payloadError :: "WorkerResponse \<Rightarrow> string option" where
  "payloadError r = (case payload r of None \<Rightarrow> None | Some p \<Rightarrow> pError p)"

subsection \<open>The client's private methods\<close>

definition initWorker :: "world \<Rightarrow> world" where
  "initWorker w =
     w\<lparr>workers := workers w @ [\<lparr>listeners = [], posted = [], terminated = False\<rparr>],
       worker := Some (length (workers w))\<rparr>"

definition clearTimeout :: "world \<Rightarrow> world" where
  "clearTimeout w =
     (case timeoutId w of
        None \<Rightarrow> w
      | Some t \<Rightarrow> w\<lparr>timers := filter (\<lambda>x. fst x \<noteq> t) (timers w), timeoutId := None\<rparr>)"

definition startTimeout :: "nat \<Rightarrow> world \<Rightarrow> world" where
  "startTimeout cb w =
     (let w1 = clearTimeout w
      in w1\<lparr>timers := timers w1 @ [(nextTimer w1, cb)],
            timeoutId := Some (nextTimer w1),
            nextTimer := Suc (nextTimer w1)\<rparr>)"

definition terminate :: "world \<Rightarrow> world" where
  "terminate w =
     (let w1 = clearTimeout w;
          w2 = (case worker w1 of
                  None \<Rightarrow> w1
                | Some k \<Rightarrow>
                    if k < length (workers w1)
                    then w1\<lparr>workers := (workers w1)[k := (workers w1 ! k)\<lparr>terminated := True\<rparr>]\<rparr>
                    else w1)
      in w2\<lparr>worker := None, isLoaded := False, loadPromise := None\<rparr>)"

definition handleMessage :: "WorkerResponse \<Rightarrow> world \<Rightarrow> world" where
  "handleMessage r w =
     (case rtype r of
        RLoaded \<Rightarrow> w\<lparr>isLoaded := True\<rparr>
      | RProgress \<Rightarrow>
          (case currentCallback w of
             None \<Rightarrow> w
           | Some cb \<Rightarrow>
               (case payload r of
                  None \<Rightarrow> w
                | Some p \<Rightarrow>
                    (case pProgress p of
                       None \<Rightarrow> w
                     | Some n \<Rightarrow>
                         callCb cb
                           \<lparr>psStatus = SProcessing, psProgress = n,
                            psMessage = strOr (Some (strOr (pStep p) (strOr (pMessage p) [])))
                                          (''Processing... '' @ showInt n @ ''%''),
                            psLogs = logs w\<rparr> w)))
      | RLog \<Rightarrow>
          (case payload r of
             None \<Rightarrow> w
           | Some p \<Rightarrow>
               (case pMessage p of
                  None \<Rightarrow> w
                | Some m \<Rightarrow>
                    if m = [] then w
                    else
                      (let w1 = w\<lparr>logs := logs w @ [m]\<rparr>
                       in case currentCallback w1 of
                            None \<Rightarrow> w1
                          | Some cb \<Rightarrow>
                              callCb cb
                                \<lparr>psStatus = SProcessing, psProgress = 0, psMessage = m,
                                 psLogs = logs w1\<rparr> w1)))
      | RComplete \<Rightarrow>
          (let w1 = clearTimeout w
           in case currentCallback w1 of
                None \<Rightarrow> w1
              | Some cb \<Rightarrow>
                  callCb cb
                    \<lparr>psStatus = SComplete, psProgress = 100,
                     psMessage = ''Processing complete!'', psLogs = logs w1\<rparr> w1)
      | RError \<Rightarrow>
          (let w1 = clearTimeout w
           in case currentCallback w1 of
                None \<Rightarrow> w1
              | Some cb \<Rightarrow>
                  callCb cb
                    \<lparr>psStatus = SError, psProgress = 0,
                     psMessage = strOr (payloadError r) ''Unknown error'',
                     psLogs = logs w1\<rparr> w1))"

definition handleError :: "string \<Rightarrow> world \<Rightarrow> world" where
  "handleError m w =
     (let w1 = clearTimeout w
      in case currentCallback w1 of
           None \<Rightarrow> w1
         | Some cb \<Rightarrow>
             callCb cb
               \<lparr>psStatus = SError, psProgress = 0,
                psMessage = ''Worker error: '' @ m, psLogs = logs w1\<rparr> w1)"

definition timeoutMessage :: string where
  "timeoutMessage = ''Processing timed out. The operation took too long.''"

text \<open>
  The function given to \<open>window.setTimeout\<close> by \<open>startTimeout\<close>, run when timer
  \<open>t\<close> expires. A timer that was cleared does not run.
\<close>

definition timerFires :: "nat \<Rightarrow> world \<Rightarrow> world" where
  "timerFires t w =
     (case map_of (timers w) t of
        None \<Rightarrow> w
      | Some cb \<Rightarrow>
          (let w1 = w\<lparr>timers := filter (\<lambda>x. fst x \<noteq> t) (timers w)\<rparr>;
               w2 = callCb cb
                      \<lparr>psStatus = SError, psProgress = 0,
                       psMessage = timeoutMessage, psLogs = logs w1\<rparr> w1
           in initWorker (terminate w2)))"

subsection \<open>Result materialization\<close>

text \<open>
  The \<open>resolve({...})\<close> of each \<open>handleResult\<close>. The copy of the bytes
  (\<open>new Uint8Array(data)\<close> or \<open>data.slice()\<close>) has the bytes of the original.
\<close>

definition trimMaterialize :: "bytes \<Rightarrow> env \<Rightarrow> world \<Rightarrow> ExportResult \<times> world" where
  "trimMaterialize d e w =
     (let (u, w1) = createObjectURL \<lparr>blobParts = d, blobType = ''video/mp4''\<rparr> w
      in (\<lparr>resId = uuid e, resType = Trim,
           resFilename = ''trimmed_'' @ showNat (now e) @ ''.mp4'',
           resSize = length d, resCreatedAt = created e, resData = d,
           objectUrl = u, resFrames = None\<rparr>, w1))"

fun frameUrls :: "(string \<times> bytes) list \<Rightarrow> world \<Rightarrow> FrameData list \<times> world" where
  "frameUrls [] w = ([], w)"
| "frameUrls (f # fs) w =
     (let (u, w1) = createObjectURL \<lparr>blobParts = snd f, blobType = ''image/jpeg''\<rparr> w;
          (rest, w2) = frameUrls fs w1
      in (\<lparr>frameName = fst f, frameBytes = snd f, frameUrl = u\<rparr> # rest, w2))"

definition framesMaterialize :: "(string \<times> bytes) list \<Rightarrow> env \<Rightarrow> world \<Rightarrow> ExportResult \<times> world" where
  "framesMaterialize fs e w =
     (let (frameData, w1) = frameUrls fs w
      in (\<lparr>resId = uuid e, resType = Frames,
           resFilename = ''frames_'' @ showNat (now e) @ ''.zip'',
           resSize = foldl (\<lambda>acc f. acc + length (snd f)) 0 fs,
           resCreatedAt = created e, resData = [],
           objectUrl = [], resFrames = Some frameData\<rparr>, w1))"

definition convertMaterialize :: "bytes \<Rightarrow> env \<Rightarrow> world \<Rightarrow> ExportResult \<times> world" where
  "convertMaterialize d e w =
     (let (u, w1) = createObjectURL \<lparr>blobParts = d, blobType = ''video/webm''\<rparr> w
      in (\<lparr>resId = uuid e, resType = Convert,
           resFilename = ''converted_'' @ showNat (now e) @ ''.webm'',
           resSize = length d, resCreatedAt = created e, resData = d,
           objectUrl = u, resFrames = None\<rparr>, w1))"

definition mergeMaterialize :: "MergeSettings \<Rightarrow> bytes \<Rightarrow> env \<Rightarrow> world \<Rightarrow> ExportResult \<times> world" where
  "mergeMaterialize st d e w =
     (let mimeType = (if format st = Webm then ''video/webm'' else ''video/mp4'');
          extension = (if format st = Webm then ''webm'' else ''mp4'');
          (u, w1) = createObjectURL \<lparr>blobParts = d, blobType = mimeType\<rparr> w
      in (\<lparr>resId = uuid e, resType = Merge,
           resFilename = ''merged_'' @ showNat (now e) @ ''.'' @ extension,
           resSize = length d, resCreatedAt = created e, resData = d,
           objectUrl = u, resFrames = None\<rparr>, w1))"

subsection \<open>Suspended commands\<close>

text \<open>
  The statements of a command between \<open>await this.load(callback)\<close> and the file
  read: \<open>this.logs = []\<close>, \<open>this.currentCallback = callback\<close>,
  \<open>this.startTimeout(callback)\<close>, then the read begins.
\<close>

definition afterLoad :: "suspended \<Rightarrow> world \<Rightarrow> world" where
  "afterLoad s w =
     (let w1 = w\<lparr>logs := []\<rparr>;
          w2 = w1\<lparr>currentCallback := Some (susCallback s)\<rparr>;
          w3 = startTimeout (susCallback s) w2
      in w3\<lparr>reading := reading w3 @ [s]\<rparr>)"

text \<open>
  When the load promise \<open>p\<close> settles, the commands that await it go on, in the order
  in which they began to wait, before the next event is delivered.
\<close>

definition resolveLoad :: "nat \<Rightarrow> world \<Rightarrow> world" where
  "resolveLoad p w =
     (let w1 = settle p (Resolved VUnit) w;
          ready = map snd (filter (\<lambda>x. fst x = p) (awaitingLoad w1));
          w2 = w1\<lparr>awaitingLoad := filter (\<lambda>x. fst x \<noteq> p) (awaitingLoad w1)\<rparr>
      in fold afterLoad ready w2)"

definition rejectLoad :: "nat \<Rightarrow> string \<Rightarrow> world \<Rightarrow> world" where
  "rejectLoad p m w =
     (let w1 = settle p (Rejected m) w;
          ready = map snd (filter (\<lambda>x. fst x = p) (awaitingLoad w1));
          w2 = w1\<lparr>awaitingLoad := filter (\<lambda>x. fst x \<noteq> p) (awaitingLoad w1)\<rparr>
      in fold (\<lambda>s. settle (susPromise s) (Rejected m)) ready w2)"

subsection \<open>The listeners\<close>

definition handleLoad :: "nat \<Rightarrow> WorkerResponse \<Rightarrow> world \<Rightarrow> world" where
  "handleLoad p r w =
     (if rtype r = RLoaded then resolveLoad p (removeListener (HandleLoad p) w)
      else if rtype r = RError
        then rejectLoad p (errorMessage (payloadError r)) (removeListener (HandleLoad p) w)
      else w)"

definition payloadData :: "WorkerResponse \<Rightarrow> bytes option" where
  "payloadData r = (case payload r of None \<Rightarrow> None | Some p \<Rightarrow> pData p)"

definition payloadFrames :: "WorkerResponse \<Rightarrow> (string \<times> bytes) list option" where
  "payloadFrames r = (case payload r of None \<Rightarrow> None | Some p \<Rightarrow> pFrames p)"

definition trimHandleResult :: "nat \<Rightarrow> WorkerResponse \<Rightarrow> env \<Rightarrow> world \<Rightarrow> world" where
  "trimHandleResult p r e w =
     (if rtype r = RComplete then
        (let w1 = removeListener (TrimResult p) w
         in case payloadData r of
              None \<Rightarrow> w1
            | Some d \<Rightarrow>
                (let (res, w2) = trimMaterialize d e w1
                 in settle p (Resolved (VResult res)) w2))
      else if rtype r = RError
        then settle p (Rejected (errorMessage (payloadError r))) (removeListener (TrimResult p) w)
      else w)"

definition framesHandleResult :: "nat \<Rightarrow> WorkerResponse \<Rightarrow> env \<Rightarrow> world \<Rightarrow> world" where
  "framesHandleResult p r e w =
     (if rtype r = RComplete then
        (let w1 = removeListener (FramesResult p) w
         in case payloadFrames r of
              None \<Rightarrow> w1
            | Some fs \<Rightarrow>
                (let (res, w2) = framesMaterialize fs e w1
                 in settle p (Resolved (VResult res)) w2))
      else if rtype r = RError
        then settle p (Rejected (errorMessage (payloadError r))) (removeListener (FramesResult p) w)
      else w)"

definition convertHandleResult :: "nat \<Rightarrow> WorkerResponse \<Rightarrow> env \<Rightarrow> world \<Rightarrow> world" where
  "convertHandleResult p r e w =
     (if rtype r = RComplete then
        (let w1 = removeListener (ConvertResult p) w
         in case payloadData r of
              None \<Rightarrow> w1
            | Some d \<Rightarrow>
                (let (res, w2) = convertMaterialize d e w1
                 in settle p (Resolved (VResult res)) w2))
      else if rtype r = RError
        then settle p (Rejected (errorMessage (payloadError r))) (removeListener (ConvertResult p) w)
      else w)"

definition mergeHandleResult :: "MergeSettings \<Rightarrow> nat \<Rightarrow> WorkerResponse \<Rightarrow> env \<Rightarrow> world \<Rightarrow> world" where
  "mergeHandleResult st p r e w =
     (if rtype r = RComplete then
        (let w1 = removeListener (MergeResult st p) w
         in case payloadData r of
              None \<Rightarrow> w1
            | Some d \<Rightarrow>
                (let (res, w2) = mergeMaterialize st d e w1
                 in settle p (Resolved (VResult res)) w2))
      else if rtype r = RError
        then settle p (Rejected (errorMessage (payloadError r))) (removeListener (MergeResult st p) w)
      else w)"

fun runListener :: "listener \<Rightarrow> WorkerResponse \<Rightarrow> env \<Rightarrow> world \<Rightarrow> world" where
  "runListener (HandleLoad p) r e w = handleLoad p r w"
| "runListener (TrimResult p) r e w = trimHandleResult p r e w"
| "runListener (FramesResult p) r e w = framesHandleResult p r e w"
| "runListener (ConvertResult p) r e w = convertHandleResult p r e w"
| "runListener (MergeResult st p) r e w = mergeHandleResult st p r e w"

text \<open>
  A message event of worker \<open>k\<close>. A terminated worker delivers nothing. The
  \<open>onmessage\<close> handler, set when the worker was created, runs first; then the
  listeners that were registered when the dispatch began, each only if it is still
  registered when its turn comes. Each listener draws its own identifier and reads
  the clock itself: \<open>e l\<close> is what the browser answers to listener \<open>l\<close>.
\<close>

definition deliver :: "nat \<Rightarrow> WorkerResponse \<Rightarrow> (listener \<Rightarrow> env) \<Rightarrow> world \<Rightarrow> world" where
  "deliver k r e w =
     (if k < length (workers w) \<and> \<not> terminated (workers w ! k) then
        fold (\<lambda>l w'. if l \<in> set (listeners (workers w' ! k)) then runListener l r (e l) w' else w')
          (listeners (workers w ! k)) (handleMessage r w)
      else w)"

definition workerError :: "nat \<Rightarrow> string \<Rightarrow> world \<Rightarrow> world" where
  "workerError k m w =
     (if k < length (workers w) \<and> \<not> terminated (workers w ! k) then handleError m w else w)"

subsection \<open>The public methods\<close>

definition sabMessage :: string where
  "sabMessage =
     ''SharedArrayBuffer is not available. '' @
     ''FFmpeg.wasm requires SharedArrayBuffer support. '' @
     ''Please ensure the server sends Cross-Origin-Opener-Policy: same-origin and '' @
     ''Cross-Origin-Embedder-Policy: require-corp headers.''"

text \<open>
  What an \<open>async\<close> method hands back: a promise already resolved, one already
  rejected, or one that takes the state of a promise of the store.
\<close>

datatype loadOutcome = LoadResolved | LoadRejected string | LoadFollows nat

definition load :: "nat option \<Rightarrow> world \<Rightarrow> loadOutcome \<times> world" where
  "load callback w =
     (if isLoaded w then (LoadResolved, w)
      else if \<not> sab w then
        (LoadRejected sabMessage,
         case callback of
           None \<Rightarrow> w
         | Some cb \<Rightarrow>
             callCb cb \<lparr>psStatus = SError, psProgress = 0, psMessage = sabMessage, psLogs = []\<rparr> w)
      else
        (case loadPromise w of
           Some p \<Rightarrow> (LoadFollows p, w)
         | None \<Rightarrow>
             (let (p, w1) = newPromise w;
                  w2 = (case worker w1 of
                          None \<Rightarrow> settle p (Rejected ''Worker not initialized'') w1
                        | Some k \<Rightarrow>
                            (let w3 = postMessage k MLoad (addListener k (HandleLoad p) w1)
                             in case callback of
                                  None \<Rightarrow> w3
                                | Some cb \<Rightarrow>
                                    callCb cb
                                      \<lparr>psStatus = SLoading, psProgress = 0,
                                       psMessage = ''Loading FFmpeg...'', psLogs = []\<rparr> w3))
              in (LoadFollows p, w2\<lparr>loadPromise := Some p\<rparr>))))"

text \<open>The state of the promise that \<open>load\<close> handed back.\<close>

definition outcomeState :: "loadOutcome \<Rightarrow> world \<Rightarrow> pstate" where
  "outcomeState out w =
     (case out of
        LoadResolved \<Rightarrow> Resolved VUnit
      | LoadRejected m \<Rightarrow> Rejected m
      | LoadFollows p \<Rightarrow> if p < length (promises w) then promises w ! p else Pending)"

text \<open>\<open>await this.load(callback)\<close> in a command.\<close>

definition awaitLoad :: "loadOutcome \<Rightarrow> suspended \<Rightarrow> world \<Rightarrow> world" where
  "awaitLoad out s w =
     (case outcomeState out w of
        Resolved v \<Rightarrow> afterLoad s w
      | Rejected m \<Rightarrow> settle (susPromise s) (Rejected m) w
      | Pending \<Rightarrow>
          (case out of
             LoadFollows p \<Rightarrow> w\<lparr>awaitingLoad := awaitingLoad w @ [(p, s)]\<rparr>
           | _ \<Rightarrow> w))"

text \<open>The shape that the four commands share, up to their first suspension.\<close>

definition submit :: "command \<Rightarrow> nat \<Rightarrow> world \<Rightarrow> nat \<times> world" where
  "submit cmd callback w =
     (let (c, w1) = newPromise w;
          (out, w2) = load (Some callback) w1
      in (c, awaitLoad out \<lparr>susCmd = cmd, susCallback = callback, susPromise = c\<rparr> w2))"

definition trim :: "File \<Rightarrow> TrimSettings \<Rightarrow> nat \<Rightarrow> world \<Rightarrow> nat \<times> world" where
  "trim file st callback w = submit (CmdTrim file st) callback w"

definition extractFrames :: "File \<Rightarrow> FrameSettings \<Rightarrow> nat \<Rightarrow> world \<Rightarrow> nat \<times> world" where
  "extractFrames file st callback w = submit (CmdFrames file st) callback w"

definition convert :: "File \<Rightarrow> ConvertSettings \<Rightarrow> nat \<Rightarrow> world \<Rightarrow> nat \<times> world" where
  "convert file st callback w = submit (CmdConvert file st) callback w"

definition merge :: "Clip list \<Rightarrow> MergeSettings \<Rightarrow> nat \<Rightarrow> world \<Rightarrow> nat \<times> world" where
  "merge cs st callback w =
     (if length cs < 2 then
        (let (c, w1) = newPromise w
         in (c, settle c (Rejected ''Need at least 2 clips to merge'') w1))
      else submit (CmdMerge cs st) callback w)"

text \<open>
  \<open>Promise.all\<close> over the reads of the clips: the buffers with the trim bounds, or
  nothing if a read fails.
\<close>

fun readClips :: "Clip list \<Rightarrow> (bytes \<times> real \<times> real) list option" where
  "readClips [] = Some []"
| "readClips (c # cs) =
     (case clipFile c of
        Unreadable \<Rightarrow> None
      | Readable b \<Rightarrow>
          (case readClips cs of
             None \<Rightarrow> None
           | Some rest \<Rightarrow> Some ((b, clipStart c, clipEnd c) # rest)))"

text \<open>
  The rest of a command once its read is over: the executor of the promise it
  returns, which registers \<open>handleResult\<close> and posts the command.
\<close>

definition execute :: "listener \<Rightarrow> FFmpegCommand \<Rightarrow> nat \<Rightarrow> world \<Rightarrow> world" where
  "execute l cmd c w =
     (case worker w of
        None \<Rightarrow> settle c (Rejected ''Worker not initialized'') w
      | Some k \<Rightarrow> postMessage k (MExecute cmd) (addListener k l w))"

definition fileBytes :: "File \<Rightarrow> bytes option" where
  "fileBytes f = (case f of Unreadable \<Rightarrow> None | Readable b \<Rightarrow> Some b)"

definition dispatch :: "suspended \<Rightarrow> world \<Rightarrow> world" where
  "dispatch s w =
     (let c = susPromise s
      in case susCmd s of
           CmdTrim f st \<Rightarrow>
             (case fileBytes f of
                None \<Rightarrow> settle c (Rejected ''Failed to read file'') w
              | Some b \<Rightarrow>
                  execute (TrimResult c)
                    \<lparr>cmdType = Trim, inputData = Some b, clips = None, settings = STrim st\<rparr> c w)
         | CmdFrames f st \<Rightarrow>
             (case fileBytes f of
                None \<Rightarrow> settle c (Rejected ''Failed to read file'') w
              | Some b \<Rightarrow>
                  execute (FramesResult c)
                    \<lparr>cmdType = Frames, inputData = Some b, clips = None, settings = SFrames st\<rparr> c w)
         | CmdConvert f st \<Rightarrow>
             (case fileBytes f of
                None \<Rightarrow> settle c (Rejected ''Failed to read file'') w
              | Some b \<Rightarrow>
                  execute (ConvertResult c)
                    \<lparr>cmdType = Convert, inputData = Some b, clips = None, settings = SConvert st\<rparr> c w)
         | CmdMerge cs st \<Rightarrow>
             (case readClips cs of
                None \<Rightarrow> settle c (Rejected ''Failed to read file'') w
              | Some clipData \<Rightarrow>
                  execute (MergeResult st c)
                    \<lparr>cmdType = Merge, inputData = None, clips = Some clipData, settings = SMerge st\<rparr> c w))"

text \<open>The read of the command with promise \<open>c\<close> is over.\<close>

definition readDone :: "nat \<Rightarrow> world \<Rightarrow> world" where
  "readDone c w =
     (case find (\<lambda>s. susPromise s = c) (reading w) of
        None \<Rightarrow> w
      | Some s \<Rightarrow> dispatch s (w\<lparr>reading := filter (\<lambda>s. susPromise s \<noteq> c) (reading w)\<rparr>))"

subsection \<open>Runs\<close>

text \<open>
  The events of the main thread: a call of a public method from the user interface,
  a message or an error event of a worker, the expiry of a timer, the end of a file
  read. Each is handled to its end, with the continuations it wakes, before the next.
\<close>

datatype event =
    CallLoad "nat option"
  | CallTrim File TrimSettings nat
  | CallExtractFrames File FrameSettings nat
  | CallConvert File ConvertSettings nat
  | CallMerge "Clip list" MergeSettings nat
  | CallTerminate
  | Message nat WorkerResponse "listener \<Rightarrow> env"
  | WorkerError nat string
  | TimerFires nat
  | ReadDone nat

fun step :: "event \<Rightarrow> world \<Rightarrow> world" where
  "step (CallLoad cb) w = snd (load cb w)"
| "step (CallTrim f st cb) w = snd (trim f st cb w)"
| "step (CallExtractFrames f st cb) w = snd (extractFrames f st cb w)"
| "step (CallConvert f st cb) w = snd (convert f st cb w)"
| "step (CallMerge cs st cb) w = snd (merge cs st cb w)"
| "step CallTerminate w = terminate w"
| "step (Message k r e) w = deliver k r e w"
| "step (WorkerError k m) w = workerError k m w"
| "step (TimerFires t) w = timerFires t w"
| "step (ReadDone c) w = readDone c w"

definition run :: "event list \<Rightarrow> world \<Rightarrow> world" where
  "run es w = fold step es w"

text \<open>\<open>new FFmpegClient()\<close>, in a browser where \<open>SharedArrayBuffer\<close> is or is not defined.\<close>

definition newClient :: "bool \<Rightarrow> world" where
  "newClient s =
     initWorker
       \<lparr>worker = None, isLoaded = False, loadPromise = None, currentCallback = None,
        logs = [], timeoutId = None, sab = s, workers = [], promises = [], timers = [],
        nextTimer = 0, blobs = [], trace = [], awaitingLoad = [], reading = []\<rparr>"

text \<open>The messages posted to worker \<open>k\<close> so far.\<close>

definition postedTo :: "nat \<Rightarrow> world \<Rightarrow> WorkerMessage list" where
  "postedTo k w = (if k < length (workers w) then posted (workers w ! k) else [])"

definition listenersOf :: "nat \<Rightarrow> world \<Rightarrow> listener list" where
  "listenersOf k w = (if k < length (workers w) then listeners (workers w ! k) else [])"

subsection \<open>Concrete scenarios\<close>

text \<open>
  An engine that rejects its first call and every stream copy, and an idle worker.
\<close>

definition rejectingCopy :: "nat engine" where
  "rejectingCopy n args = (\<not> isStreamCopy args \<and> 0 < n, Suc n)"

definition worker0 :: "nat wstate" where
  "worker0 = \<lparr>eng = 0, execs = [], sentLogs = []\<rparr>"

definition oneClip :: Clip where
  "oneClip = \<lparr>clipFile = Readable [1, 2, 3], clipStart = 0, clipEnd = 4\<rparr>"

text \<open>Successive calls of \<open>load\<close> with no event in between.\<close>

fun loads :: "nat option list \<Rightarrow> world \<Rightarrow> loadOutcome list \<times> world" where
  "loads [] w = ([], w)"
| "loads (cb # cbs) w =
     (let (out, w1) = load cb w;
          (outs, w2) = loads cbs w1
      in (out # outs, w2))"

text \<open>
  From \<open>w\<close> to \<open>w'\<close> no promise is lost and no settled promise has changed.
\<close>

definition keeps :: "world \<Rightarrow> world \<Rightarrow> bool" where
  "keeps w w' =
     (length (promises w) \<le> length (promises w') \<and>
      (\<forall>p < length (promises w). promises w ! p \<noteq> Pending \<longrightarrow> promises w' ! p = promises w ! p))"

text \<open>Responses of the worker, the environment of a handler, and a loaded client.\<close>

definition emptyPayload :: Payload where
  "emptyPayload =
     \<lparr>pProgress = None, pMessage = None, pData = None, pFrames = None, pError = None,
      pStep = None\<rparr>"

definition loadedResponse :: WorkerResponse where
  "loadedResponse = \<lparr>rtype = RLoaded, payload = None\<rparr>"

definition completeResponse :: "bytes \<Rightarrow> WorkerResponse" where
  "completeResponse d = \<lparr>rtype = RComplete, payload = Some (emptyPayload\<lparr>pData := Some d\<rparr>)\<rparr>"

definition errorResponse :: "string \<Rightarrow> WorkerResponse" where
  "errorResponse m = \<lparr>rtype = RError, payload = Some (emptyPayload\<lparr>pError := Some m\<rparr>)\<rparr>"

definition env0 :: env where
  "env0 = \<lparr>uuid = ''0b5e'', now = 1700, created = 1701\<rparr>"

definition envs0 :: "listener \<Rightarrow> env" where
  "envs0 l = env0"

definition loadedClient :: world where
  "loadedClient = run [CallLoad (Some 7), Message 0 loadedResponse envs0] (newClient True)"

text \<open>The complete event carries what the listener reads from it.\<close>

fun hasOutput :: "listener \<Rightarrow> WorkerResponse \<Rightarrow> bool" where
  "hasOutput (HandleLoad p) r = False"
| "hasOutput (FramesResult p) r = (payloadFrames r \<noteq> None)"
| "hasOutput (TrimResult p) r = (payloadData r \<noteq> None)"
| "hasOutput (ConvertResult p) r = (payloadData r \<noteq> None)"
| "hasOutput (MergeResult st p) r = (payloadData r \<noteq> None)"

text \<open>
  A trim that the loaded client has posted to the worker, and the same client after
  the timer of that trim has expired and, later, the old worker's answer has come.
\<close>

definition trimSettings0 :: TrimSettings where
  "trimSettings0 = \<lparr>startTime = 5, endTime = 15, mode = Fast\<rparr>"

definition dispatchedClient :: world where
  "dispatchedClient = run [CallTrim (Readable [1, 2, 3]) trimSettings0 7, ReadDone 1] loadedClient"

definition timedOutClient :: world where
  "timedOutClient = run [TimerFires 0, Message 0 (completeResponse [9, 9]) envs0] dispatchedClient"

text \<open>
  What a command hands back when the client has no worker: its promise is rejected
  with "Worker not initialized", and the client still has no worker and no more
  workers than in \<open>w\<close>.
\<close>

definition failsWithoutContext :: "world \<Rightarrow> nat \<times> world \<Rightarrow> bool" where
  "failsWithoutContext w r =
     (promises (snd r) ! fst r = Rejected ''Worker not initialized'' \<and>
      worker (snd r) = None \<and>
      length (workers (snd r)) = length (workers w))"

text \<open>The loaded client after \<open>terminate()\<close> and two trims.\<close>

definition terminatedClient :: world where
  "terminatedClient =
     run [CallTerminate,
          CallTrim (Readable [1, 2, 3]) trimSettings0 7,
          CallTrim (Readable [1, 2, 3]) trimSettings0 8] loadedClient"

definition twoClips :: "Clip list" where
  "twoClips = [oneClip, oneClip]"

text \<open>A client whose first load has failed.\<close>

definition failedLoadClient :: world where
  "failedLoadClient =
     run [CallLoad (Some 7), Message 0 (errorResponse ''Failed to load FFmpeg: no core'') envs0]
       (newClient True)"

text \<open>
  For stating what a command needs in order to succeed: its input can be read, and the
  listener that \<open>dispatch\<close> registers for it.
\<close>

definition inputsReadable :: "command \<Rightarrow> bool" where
  "inputsReadable cmd =
     (case cmd of
        CmdTrim f st \<Rightarrow> fileBytes f \<noteq> None
      | CmdFrames f st \<Rightarrow> fileBytes f \<noteq> None
      | CmdConvert f st \<Rightarrow> fileBytes f \<noteq> None
      | CmdMerge cs st \<Rightarrow> readClips cs \<noteq> None)"

definition resultListener :: "command \<Rightarrow> nat \<Rightarrow> listener" where
  "resultListener cmd c =
     (case cmd of
        CmdTrim f st \<Rightarrow> TrimResult c
      | CmdFrames f st \<Rightarrow> FramesResult c
      | CmdConvert f st \<Rightarrow> ConvertResult c
      | CmdMerge cs st \<Rightarrow> MergeResult st c)"

text \<open>
  A command called through the public method of its kind, and the guard of \<open>merge\<close>.
\<close>

definition invoke :: "command \<Rightarrow> nat \<Rightarrow> world \<Rightarrow> nat \<times> world" where
  "invoke cmd callback w =
     (case cmd of
        CmdTrim f st \<Rightarrow> trim f st callback w
      | CmdFrames f st \<Rightarrow> extractFrames f st callback w
      | CmdConvert f st \<Rightarrow> convert f st callback w
      | CmdMerge cs st \<Rightarrow> merge cs st callback w)"

definition enoughClips :: "command \<Rightarrow> bool" where
  "enoughClips cmd = (case cmd of CmdMerge cs st \<Rightarrow> 2 \<le> length cs | _ \<Rightarrow> True)"

text \<open>
  A client whose worker \<open>k\<close> is new: alive, not loaded, nothing registered on it, and
  no command of the client under way.
\<close>

definition freshContext :: "nat \<Rightarrow> world \<Rightarrow> bool" where
  "freshContext k w =
     (sab w \<and> \<not> isLoaded w \<and> loadPromise w = None \<and> worker w = Some k \<and>
      k < length (workers w) \<and> \<not> terminated (workers w ! k) \<and>
      listeners (workers w ! k) = [] \<and> awaitingLoad w = [] \<and> reading w = [])"

text \<open>A convert that was posted to the worker and whose timer has expired.\<close>

definition convertDispatched :: world where
  "convertDispatched =
     run [CallConvert (Readable [4, 5]) \<lparr>quality = High\<rparr> 7, ReadDone 1] loadedClient"

definition convertTimedOut :: world where
  "convertTimedOut = run [TimerFires 0] convertDispatched"

text \<open>
  The promise whose \<open>resolve\<close> and \<open>reject\<close> a listener holds, and the kind of a
  command.
\<close>

fun listenerPromise :: "listener \<Rightarrow> nat" where
  "listenerPromise (HandleLoad p) = p"
| "listenerPromise (TrimResult p) = p"
| "listenerPromise (FramesResult p) = p"
| "listenerPromise (ConvertResult p) = p"
| "listenerPromise (MergeResult st p) = p"

definition commandKind :: "command \<Rightarrow> kind" where
  "commandKind cmd =
     (case cmd of
        CmdTrim f st \<Rightarrow> Trim
      | CmdFrames f st \<Rightarrow> Frames
      | CmdConvert f st \<Rightarrow> Convert
      | CmdMerge cs st \<Rightarrow> Merge)"

text \<open>
  Promise \<open>c\<close> is pending and nothing can settle it any more: no suspended command
  is the one that returned it, and no listener of a worker that is alive holds it.
\<close>

definition abandoned :: "nat \<Rightarrow> world \<Rightarrow> bool" where
  "abandoned c w =
     (c < length (promises w) \<and> promises w ! c = Pending \<and>
      list_all (\<lambda>s. susPromise s \<noteq> c) (reading w) \<and>
      list_all (\<lambda>x. susPromise (snd x) \<noteq> c) (awaitingLoad w) \<and>
      list_all (\<lambda>wk. terminated wk \<or> list_all (\<lambda>l. listenerPromise l \<noteq> c) (listeners wk))
        (workers w))"

text \<open>Worker \<open>k\<close> is the only worker of the client that may be alive.\<close>

definition onlyLive :: "nat \<Rightarrow> world \<Rightarrow> bool" where
  "onlyLive k w = list_all (\<lambda>j. j = k \<or> terminated (workers w ! j)) [0..<length (workers w)]"

text \<open>The loaded client with a trim that is reading its file.\<close>

definition readingClient :: world where
  "readingClient = run [CallTrim (Readable [1, 2, 3]) trimSettings0 7] loadedClient"

section \<open>Properties\<close>

lemma showNat_40: "showNat 40 = ''40''"
  by (simp add: showNat.simps [of 40] showNat.simps [of 4] digit_def)

lemma showNat_32: "showNat 32 = ''32''"
  by (simp add: showNat.simps [of 32] showNat.simps [of 3] digit_def)

lemma showNat_24: "showNat 24 = ''24''"
  by (simp add: showNat.simps [of 24] showNat.simps [of 2] digit_def)

text \<open>
  C7. Convert maps the quality tier low to 40, medium to 32 and high to 24 through the
  fixed table, and whatever the tier the engine is asked for VP9 video and Opus audio
  into a WebM output file.
\<close>

theorem convert_quality_table:
  "convertCrf \<lparr>quality = Low\<rparr> = 40 \<and>
   convertCrf \<lparr>quality = Medium\<rparr> = 32 \<and>
   convertCrf \<lparr>quality = High\<rparr> = 24 \<and>
   argOf ''-crf'' (convertArgs s) = Some (showNat (convertCrf s)) \<and>
   argOf ''-c:v'' (convertArgs s) = Some ''libvpx-vp9'' \<and>
   argOf ''-c:a'' (convertArgs s) = Some ''libopus'' \<and>
   last (convertArgs s) = ''output.webm''"
  by (cases "quality s")
    (simp_all add: convertCrf_def crfMap_def qualityKey_def convertArgs_def
      convertInputName_def convertOutputName_def showNat_40 showNat_32 showNat_24)

text \<open>
  C6, as amended. The concatenation phase runs the first argument list and, only if the
  engine rejects it, the fallback list. For mp4 the first list is a stream copy
  (\<open>-c copy\<close>) and the fallback a full re-encode with libx264 and aac; for webm the
  first list is already a full re-encode, with libvpx-vp9 and libopus, and the
  fallback is that same list once more.
\<close>

theorem merge_concat_attempts:
  "execs (snd (mergeConcat f st s)) =
     execs s @ (if fst (f (eng s) (mergeArgsFirst st)) then [mergeArgsFirst st]
                else [mergeArgsFirst st, mergeArgsFallback st]) \<and>
   (case format st of
      Mp4 \<Rightarrow>
        argOf ''-c'' (mergeArgsFirst st) = Some ''copy'' \<and>
        argOf ''-c:v'' (mergeArgsFirst st) = None \<and>
        argOf ''-c:a'' (mergeArgsFirst st) = None \<and>
        isStreamCopy (mergeArgsFirst st) \<and>
        reencodesWith ''libx264'' ''aac'' (mergeArgsFallback st) \<and>
        \<not> isStreamCopy (mergeArgsFallback st) \<and>
        last (mergeArgsFirst st) = ''merged.mp4'' \<and>
        last (mergeArgsFallback st) = ''merged.mp4''
    | Webm \<Rightarrow>
        reencodesWith ''libvpx-vp9'' ''libopus'' (mergeArgsFirst st) \<and>
        \<not> isStreamCopy (mergeArgsFirst st) \<and>
        mergeArgsFallback st = mergeArgsFirst st \<and>
        last (mergeArgsFirst st) = ''merged.webm'')"
  by (cases "format st")
    (simp_all add: mergeConcat_def exec_def split_beta Let_def mergeArgsFirst_def
      mergeArgsFallback_def isStreamCopy_def reencodesWith_def mergeOutputName_def)

text \<open>
  C6, as stated, fails for webm: the first attempt of a webm merge is not a stream
  copy, and when the engine rejects it the same re-encode is run again.
\<close>

theorem merge_webm_first_attempt_counterexample:
  "\<not> isStreamCopy (hd (execs (snd (mergeConcat rejectingCopy \<lparr>format = Webm\<rparr> worker0)))) \<and>
   execs (snd (mergeConcat rejectingCopy \<lparr>format = Webm\<rparr> worker0)) =
     [mergeArgsFirst \<lparr>format = Webm\<rparr>, mergeArgsFirst \<lparr>format = Webm\<rparr>]"
  by (simp add: mergeConcat_def exec_def split_beta Let_def mergeArgsFirst_def
      mergeArgsFallback_def isStreamCopy_def rejectingCopy_def worker0_def mergeOutputName_def)

text \<open>
  C10. A merge of fewer than two clips hands back a promise rejected with
  "Need at least 2 clips to merge" and changes nothing else: no callback is called, no
  timer is armed, the logs and the active callback stay, nothing is posted.
\<close>

theorem merge_too_few_clips:
  "length cs < 2 \<Longrightarrow>
   merge cs st callback w =
     (length (promises w),
      w\<lparr>promises := promises w @ [Rejected ''Need at least 2 clips to merge'']\<rparr>)"
  by (simp add: merge_def newPromise_def settle_def)

theorem merge_too_few_clips_witness:
  "length [oneClip] < 2 \<and>
   merge [oneClip] \<lparr>format = Mp4\<rparr> 7 (newClient True) =
     (0, (newClient True)\<lparr>promises := [Rejected ''Need at least 2 clips to merge'']\<rparr>)"
  using merge_too_few_clips [of "[oneClip]" "\<lparr>format = Mp4\<rparr>" 7 "newClient True"]
  by (simp add: newClient_def initWorker_def)

text \<open>
  C5. Without \<open>SharedArrayBuffer\<close>, and not yet loaded, \<open>load\<close> rejects at once with
  the capability message, the callback (if one is given) receives that message as an
  error status, and nothing is posted to the worker.
\<close>

theorem load_without_shared_memory:
  "\<not> sab w \<Longrightarrow> \<not> isLoaded w \<Longrightarrow>
   load callback w =
     (LoadRejected sabMessage,
      case callback of
        None \<Rightarrow> w
      | Some cb \<Rightarrow>
          w\<lparr>trace := trace w @
            [(cb, \<lparr>psStatus = SError, psProgress = 0, psMessage = sabMessage, psLogs = []\<rparr>)]\<rparr>) \<and>
   workers (snd (load callback w)) = workers w"
  by (simp add: load_def callCb_def split: option.splits)

theorem load_without_shared_memory_witness:
  "\<not> sab (newClient False) \<and> \<not> isLoaded (newClient False) \<and>
   fst (load (Some 7) (newClient False)) = LoadRejected sabMessage \<and>
   trace (snd (load (Some 7) (newClient False))) =
     [(7, \<lparr>psStatus = SError, psProgress = 0, psMessage = sabMessage, psLogs = []\<rparr>)] \<and>
   postedTo 0 (snd (load (Some 7) (newClient False))) = []"
  using load_without_shared_memory [of "newClient False" "Some 7"]
  by (simp add: newClient_def initWorker_def postedTo_def)

lemma frameUrls_blobs:
  "frameUrls fs w = (fds, w') \<Longrightarrow>
   blobs w' = blobs w @ map (\<lambda>fd. (frameUrl fd, \<lparr>blobParts = frameBytes fd, blobType = ''image/jpeg''\<rparr>)) fds \<and>
   map (\<lambda>fd. (frameName fd, frameBytes fd)) fds = fs"
proof (induction fs arbitrary: w fds w')
  case Nil
  then show ?case by simp
next
  case (Cons f fs)
  obtain u w1 where c: "createObjectURL \<lparr>blobParts = snd f, blobType = ''image/jpeg''\<rparr> w = (u, w1)"
    by (cases "createObjectURL \<lparr>blobParts = snd f, blobType = ''image/jpeg''\<rparr> w")
  obtain rest w2 where r: "frameUrls fs w1 = (rest, w2)"
    by (cases "frameUrls fs w1")
  from Cons.prems c r have fds: "fds = \<lparr>frameName = fst f, frameBytes = snd f, frameUrl = u\<rparr> # rest"
    and w': "w' = w2" by simp_all
  from c have w1: "w1 = w\<lparr>blobs := blobs w @ [(u, \<lparr>blobParts = snd f, blobType = ''image/jpeg''\<rparr>)]\<rparr>"
    by (auto simp add: createObjectURL_def Let_def)
  from Cons.IH [OF r] show ?case
    unfolding fds w' w1 by simp
qed

subsection \<open>Loading once\<close>

lemma load_in_flight:
  "sab w \<Longrightarrow> \<not> isLoaded w \<Longrightarrow> loadPromise w = Some p \<Longrightarrow> load cb w = (LoadFollows p, w)"
  by (simp add: load_def)

lemma loads_in_flight:
  "sab w \<Longrightarrow> \<not> isLoaded w \<Longrightarrow> loadPromise w = Some p \<Longrightarrow>
   loads cbs w = (replicate (length cbs) (LoadFollows p), w)"
  by (induction cbs) (simp_all add: load_in_flight)

lemma load_first:
  assumes "sab w" "\<not> isLoaded w" "loadPromise w = None" "worker w = Some k" "k < length (workers w)"
  shows "fst (load cb w) = LoadFollows (length (promises w))"
    and "sab (snd (load cb w))"
    and "\<not> isLoaded (snd (load cb w))"
    and "loadPromise (snd (load cb w)) = Some (length (promises w))"
    and "postedTo k (snd (load cb w)) = postedTo k w @ [MLoad]"
    and "promises (snd (load cb w)) = promises w @ [Pending]"
    and "listenersOf k (snd (load cb w)) = listenersOf k w @ [HandleLoad (length (promises w))]"
    and "worker (snd (load cb w)) = Some k"
    and "length (workers (snd (load cb w))) = length (workers w)"
    and "terminated (workers (snd (load cb w)) ! k) = terminated (workers w ! k)"
    and "awaitingLoad (snd (load cb w)) = awaitingLoad w"
  using assms
  by (cases cb; simp add: load_def newPromise_def addListener_def postMessage_def callCb_def
      postedTo_def listenersOf_def Let_def)+

text \<open>
  C4. While a load is in flight, any number of calls of \<open>load\<close> post exactly one load
  message and all hand back the same pending promise, so they settle together; once
  the engine is loaded, \<open>load\<close> resolves at once and changes nothing.
\<close>

theorem load_memoized:
  assumes "sab w" "\<not> isLoaded w" "loadPromise w = None" "worker w = Some k" "k < length (workers w)"
  shows "fst (loads (cb # cbs) w) = replicate (Suc (length cbs)) (LoadFollows (length (promises w))) \<and>
    postedTo k (snd (loads (cb # cbs) w)) = postedTo k w @ [MLoad] \<and>
    promises (snd (loads (cb # cbs) w)) ! length (promises w) = Pending \<and>
    (isLoaded w' \<longrightarrow> load cb' w' = (LoadResolved, w'))"
proof -
  obtain out w1 where l: "load cb w = (out, w1)" by (cases "load cb w")
  from load_first [OF assms, of cb] l
  have out: "out = LoadFollows (length (promises w))" and s: "sab w1" and n: "\<not> isLoaded w1"
    and lp: "loadPromise w1 = Some (length (promises w))"
    and po: "postedTo k w1 = postedTo k w @ [MLoad]"
    and pr: "promises w1 = promises w @ [Pending]" by simp_all
  from loads_in_flight [OF s n lp, of cbs] l out po pr show ?thesis
    by (simp add: load_def)
qed

lemma newClient_True:
  "newClient True = \<lparr>worker = Some 0, isLoaded = False, loadPromise = None, currentCallback = None,
        logs = [], timeoutId = None, sab = True,
        workers = [\<lparr>listeners = [], posted = [], terminated = False\<rparr>], promises = [], timers = [],
        nextTimer = 0, blobs = [], trace = [], awaitingLoad = [], reading = []\<rparr>"
  by (simp add: newClient_def initWorker_def)

theorem load_memoized_witness:
  "sab (newClient True) \<and> \<not> isLoaded (newClient True) \<and> loadPromise (newClient True) = None \<and>
   worker (newClient True) = Some 0 \<and> 0 < length (workers (newClient True)) \<and>
   fst (loads [Some 7, None, Some 8] (newClient True)) = [LoadFollows 0, LoadFollows 0, LoadFollows 0] \<and>
   postedTo 0 (snd (loads [Some 7, None, Some 8] (newClient True))) = [MLoad] \<and>
   isLoaded loadedClient \<and> load (Some 9) loadedClient = (LoadResolved, loadedClient)"
proof -
  have a: "sab (newClient True)" "\<not> isLoaded (newClient True)" "loadPromise (newClient True) = None"
    "worker (newClient True) = Some 0" "0 < length (workers (newClient True))"
    by (simp_all add: newClient_True)
  have l: "isLoaded loadedClient"
    by (simp add: loadedClient_def run_def newClient_True load_def newPromise_def addListener_def
        postMessage_def callCb_def Let_def deliver_def handleMessage_def loadedResponse_def
        handleLoad_def removeListener_def resolveLoad_def settle_def)
  from load_memoized [OF a, of "Some 7" "[None, Some 8]" loadedClient "Some 9"] a l
  show ?thesis by (simp add: newClient_True postedTo_def numeral_3_eq_3)
qed

subsection \<open>What each operation leaves alone\<close>

lemma settle_fields [simp]:
  "worker (settle p v w) = worker w" "isLoaded (settle p v w) = isLoaded w"
  "loadPromise (settle p v w) = loadPromise w" "sab (settle p v w) = sab w"
  "workers (settle p v w) = workers w" "timers (settle p v w) = timers w"
  "trace (settle p v w) = trace w" "awaitingLoad (settle p v w) = awaitingLoad w"
  "reading (settle p v w) = reading w" "blobs (settle p v w) = blobs w"
  "currentCallback (settle p v w) = currentCallback w" "logs (settle p v w) = logs w"
  "timeoutId (settle p v w) = timeoutId w" "nextTimer (settle p v w) = nextTimer w"
  "length (promises (settle p v w)) = length (promises w)"
  by (simp_all add: settle_def)

lemma settle_pending:
  "p < length (promises w) \<Longrightarrow> promises w ! p = Pending \<Longrightarrow> promises (settle p v w) ! p = v"
  by (simp add: settle_def)

lemma settle_other:
  "q \<noteq> p \<Longrightarrow> promises (settle p v w) ! q = promises w ! q"
  by (simp add: settle_def)

lemma settle_settled:
  "promises w ! q \<noteq> Pending \<Longrightarrow> promises (settle p v w) ! q = promises w ! q"
  by (cases "q = p") (simp_all add: settle_def)

lemma keeps_refl [simp]: "keeps w w"
  by (simp add: keeps_def)

lemma keeps_trans: "keeps w w1 \<Longrightarrow> keeps w1 w2 \<Longrightarrow> keeps w w2"
  by (fastforce simp add: keeps_def)

lemma keeps_same: "promises w' = promises w \<Longrightarrow> keeps w w'"
  by (simp add: keeps_def)

lemma keeps_settle [simp]: "keeps w (settle p v w)"
  by (simp add: keeps_def settle_settled)

lemma keeps_append: "promises w' = promises w @ ps \<Longrightarrow> keeps w w'"
  by (simp add: keeps_def nth_append)

lemma keeps_newPromise [simp]: "keeps w (snd (newPromise w))"
  by (rule keeps_append [of _ _ "[Pending]"]) (simp add: newPromise_def)

lemma promises_simple [simp]:
  "promises (callCb cb s w) = promises w"
  "promises (addListener k l w) = promises w"
  "promises (removeListener l w) = promises w"
  "promises (postMessage k m w) = promises w"
  "promises (snd (createObjectURL b w)) = promises w"
  "promises (initWorker w) = promises w"
  "promises (clearTimeout w) = promises w"
  "promises (startTimeout cb w) = promises w"
  "promises (terminate w) = promises w"
  "promises (handleError em w) = promises w"
  by (simp_all add: callCb_def addListener_def removeListener_def postMessage_def
      createObjectURL_def initWorker_def clearTimeout_def startTimeout_def terminate_def
      handleError_def Let_def split: option.splits)

lemma promises_handleMessage [simp]: "promises (handleMessage r w) = promises w"
  by (cases "rtype r")
    (simp_all add: handleMessage_def Let_def split: option.splits)

lemma promises_timerFires [simp]: "promises (timerFires t w) = promises w"
  by (simp add: timerFires_def Let_def split: option.splits)

lemma promises_frameUrls [simp]: "promises (snd (frameUrls fs w)) = promises w"
  by (induction fs arbitrary: w) (simp_all add: split_beta Let_def createObjectURL_def)

lemma promises_materialize [simp]:
  "promises (snd (trimMaterialize d e w)) = promises w"
  "promises (snd (convertMaterialize d e w)) = promises w"
  "promises (snd (mergeMaterialize st d e w)) = promises w"
  "promises (snd (framesMaterialize fs e w)) = promises w"
  by (simp_all add: trimMaterialize_def convertMaterialize_def mergeMaterialize_def
      framesMaterialize_def split_beta Let_def)

lemma promises_afterLoad [simp]: "promises (afterLoad s w) = promises w"
  by (simp add: afterLoad_def Let_def)

lemma promises_fold_afterLoad [simp]: "promises (fold afterLoad ss w) = promises w"
  by (induction ss arbitrary: w) simp_all

lemma keeps_fold_settle: "keeps w (fold (\<lambda>s. settle (f s) v) ss w)"
proof (induction ss arbitrary: w)
  case Nil
  show ?case by simp
next
  case (Cons s ss)
  have "keeps w (settle (f s) v w)" by simp
  from keeps_trans [OF this Cons.IH] show ?case by simp
qed

lemma keeps_resolveLoad [simp]: "keeps w (resolveLoad p w)"
  by (rule keeps_trans [of _ "settle p (Resolved VUnit) w"])
    (simp_all add: resolveLoad_def Let_def keeps_same)

lemma keeps_rejectLoad [simp]: "keeps w (rejectLoad p m w)"
proof -
  let ?w1 = "settle p (Rejected m) w"
  let ?w2 = "?w1\<lparr>awaitingLoad := filter (\<lambda>x. fst x \<noteq> p) (awaitingLoad ?w1)\<rparr>"
  have "keeps w ?w1" by simp
  moreover have "keeps ?w1 ?w2" by (simp add: keeps_same)
  moreover have "keeps ?w2 (rejectLoad p m w)"
    unfolding rejectLoad_def Let_def by (rule keeps_fold_settle)
  ultimately show ?thesis by (blast intro: keeps_trans)
qed

lemma keeps_handleLoad [simp]: "keeps w (handleLoad p r w)"
proof -
  have "keeps w (removeListener (HandleLoad p) w)" by (simp add: keeps_same)
  then show ?thesis
    by (auto simp add: handleLoad_def intro: keeps_trans keeps_resolveLoad keeps_rejectLoad)
qed

lemma keeps_settle_after: "promises w1 = promises w \<Longrightarrow> keeps w (settle p v w1)"
  by (rule keeps_trans [of _ w1]) (simp_all add: keeps_same)

lemma keeps_handleResult [simp]:
  "keeps w (trimHandleResult p r e w)"
  "keeps w (framesHandleResult p r e w)"
  "keeps w (convertHandleResult p r e w)"
  "keeps w (mergeHandleResult st p r e w)"
  by (simp_all add: trimHandleResult_def framesHandleResult_def convertHandleResult_def
      mergeHandleResult_def Let_def split_beta keeps_same keeps_settle_after split: option.splits)

lemma keeps_runListener [simp]: "keeps w (runListener l r e w)"
  by (cases l) simp_all

lemma keeps_fold_listeners:
  "keeps w (fold (\<lambda>l w'. if P l w' then runListener l r (e l) w' else w') ls w)"
proof (induction ls arbitrary: w)
  case Nil
  show ?case by simp
next
  case (Cons l ls)
  have "keeps w (if P l w then runListener l r (e l) w else w)" by simp
  from keeps_trans [OF this Cons.IH] show ?case by simp
qed

lemma keeps_deliver [simp]: "keeps w (deliver k r e w)"
proof (cases "k < length (workers w) \<and> \<not> terminated (workers w ! k)")
  case True
  have "keeps w (handleMessage r w)" by (simp add: keeps_same)
  from keeps_trans [OF this keeps_fold_listeners] True show ?thesis
    by (simp add: deliver_def)
next
  case False
  then show ?thesis by (auto simp add: deliver_def)
qed

lemma keeps_load [simp]: "keeps w (snd (load cb w))"
  by (auto simp add: keeps_def load_def newPromise_def settle_def Let_def nth_append
      split: option.splits)

lemma keeps_awaitLoad [simp]: "keeps w (awaitLoad out s w)"
proof (cases "outcomeState out w")
  case Pending
  then show ?thesis by (cases out) (simp_all add: awaitLoad_def keeps_same)
next
  case (Resolved v)
  then show ?thesis by (simp add: awaitLoad_def keeps_same)
next
  case (Rejected m)
  then show ?thesis by (simp add: awaitLoad_def)
qed

lemma keeps_submit [simp]: "keeps w (snd (submit cmd cb w))"
proof -
  obtain c w1 where n: "newPromise w = (c, w1)" by (cases "newPromise w")
  obtain out w2 where l: "load (Some cb) w1 = (out, w2)" by (cases "load (Some cb) w1")
  have a: "keeps w w1" using keeps_newPromise [of w] n by simp
  have b: "keeps w1 w2" using keeps_load [of w1 "Some cb"] l by simp
  have c: "keeps w2 (awaitLoad out \<lparr>susCmd = cmd, susCallback = cb, susPromise = c\<rparr> w2)"
    by (rule keeps_awaitLoad)
  from keeps_trans [OF a keeps_trans [OF b c]] show ?thesis
    by (simp add: submit_def n l)
qed

lemma keeps_merge [simp]: "keeps w (snd (merge cs st cb w))"
proof (cases "length cs < 2")
  case True
  have "keeps w (settle (fst (newPromise w)) (Rejected ''Need at least 2 clips to merge'') (snd (newPromise w)))"
    by (rule keeps_trans [OF keeps_newPromise keeps_settle])
  with True show ?thesis by (simp add: merge_def split_beta)
next
  case False
  then show ?thesis by (simp add: merge_def)
qed

lemma keeps_execute [simp]: "keeps w (execute l cmd c w)"
  by (simp add: execute_def keeps_same split: option.splits)

lemma keeps_dispatch [simp]: "keeps w (dispatch s w)"
  by (simp add: dispatch_def Let_def split: command.splits option.splits)

lemma keeps_readDone [simp]: "keeps w (readDone c w)"
proof (cases "find (\<lambda>s. susPromise s = c) (reading w)")
  case None
  then show ?thesis by (simp add: readDone_def)
next
  case (Some s)
  let ?w1 = "w\<lparr>reading := filter (\<lambda>s. susPromise s \<noteq> c) (reading w)\<rparr>"
  have "keeps w ?w1" by (simp add: keeps_same)
  from keeps_trans [OF this keeps_dispatch] Some show ?thesis
    by (simp add: readDone_def)
qed

lemma keeps_step: "keeps w (step ev w)"
  by (cases ev)
    (simp_all add: trim_def extractFrames_def convert_def workerError_def keeps_same)

lemma keeps_run: "keeps w (run evs w)"
  unfolding run_def
proof (induction evs arbitrary: w)
  case Nil
  show ?case by simp
next
  case (Cons ev evs)
  from keeps_trans [OF keeps_step Cons.IH] show ?case by simp
qed

subsection \<open>Settling a command\<close>

lemma workers_frameUrls [simp]:
  "workers (snd (frameUrls fs w)) = workers w" "worker (snd (frameUrls fs w)) = worker w"
  by (induction fs arbitrary: w) (simp_all add: split_beta Let_def createObjectURL_def)

lemma listenersOf_settle [simp]: "listenersOf k (settle p v w) = listenersOf k w"
  by (simp add: listenersOf_def)

lemma listenersOf_materialize [simp]:
  "listenersOf k (snd (trimMaterialize d e w)) = listenersOf k w"
  "listenersOf k (snd (convertMaterialize d e w)) = listenersOf k w"
  "listenersOf k (snd (mergeMaterialize st d e w)) = listenersOf k w"
  "listenersOf k (snd (framesMaterialize fs e w)) = listenersOf k w"
  by (simp_all add: listenersOf_def trimMaterialize_def convertMaterialize_def
      mergeMaterialize_def framesMaterialize_def createObjectURL_def split_beta Let_def)

lemma listenersOf_removeListener:
  "worker w = Some k \<Longrightarrow> listenersOf k (removeListener l w) = removeAll l (listenersOf k w)"
  by (simp add: listenersOf_def removeListener_def)

lemma handleResult_removes:
  assumes "worker w = Some k"
    and "l = TrimResult p \<or> l = FramesResult p \<or> l = ConvertResult p \<or> l = MergeResult st p"
    and "rtype r = RError \<or> rtype r = RComplete"
  shows "l \<notin> set (listenersOf k (runListener l r e w))"
  using assms
  by (auto simp add: trimHandleResult_def framesHandleResult_def convertHandleResult_def
      mergeHandleResult_def listenersOf_removeListener Let_def split_beta split: option.splits)

lemma handleResult_rejects:
  assumes "p < length (promises w)" "promises w ! p = Pending"
    and "l = TrimResult p \<or> l = FramesResult p \<or> l = ConvertResult p \<or> l = MergeResult st p"
    and "rtype r = RError"
  shows "promises (runListener l r e w) ! p = Rejected (errorMessage (payloadError r))"
  using assms
  by (auto simp add: trimHandleResult_def framesHandleResult_def convertHandleResult_def
      mergeHandleResult_def settle_pending)

lemma handleResult_resolves:
  assumes "p < length (promises w)" "promises w ! p = Pending"
    and "l = TrimResult p \<or> l = FramesResult p \<or> l = ConvertResult p \<or> l = MergeResult st p"
    and "rtype r = RComplete" "hasOutput l r"
  shows "\<exists>res. promises (runListener l r e w) ! p = Resolved (VResult res)"
  using assms
  by (auto simp add: trimHandleResult_def framesHandleResult_def convertHandleResult_def
      mergeHandleResult_def settle_pending Let_def split_beta)

lemma handleResult_ignores:
  assumes "l = TrimResult p \<or> l = FramesResult p \<or> l = ConvertResult p \<or> l = MergeResult st p"
    and "rtype r \<noteq> RError" "rtype r \<noteq> RComplete"
  shows "runListener l r e w = w"
  using assms
  by (auto simp add: trimHandleResult_def framesHandleResult_def convertHandleResult_def
      mergeHandleResult_def)

lemma settled_stays:
  "p < length (promises w) \<Longrightarrow> promises w ! p \<noteq> Pending \<Longrightarrow>
   promises (run evs w) ! p = promises w ! p"
  using keeps_run [of w evs] by (simp add: keeps_def)

subsection \<open>The concrete scenarios, evaluated\<close>

lemmas run_defs =
  run_def load_def newPromise_def addListener_def postMessage_def callCb_def Let_def
  deliver_def handleMessage_def handleLoad_def removeListener_def resolveLoad_def
  rejectLoad_def settle_def trim_def convert_def submit_def awaitLoad_def outcomeState_def
  afterLoad_def startTimeout_def clearTimeout_def readDone_def dispatch_def execute_def
  fileBytes_def timerFires_def terminate_def initWorker_def payloadError_def
  errorMessage_def strOr_def

lemma loadedClient_eq:
  "loadedClient =
     \<lparr>worker = Some 0, isLoaded = True, loadPromise = Some 0, currentCallback = None,
      logs = [], timeoutId = None, sab = True,
      workers = [\<lparr>listeners = [], posted = [MLoad], terminated = False\<rparr>],
      promises = [Resolved VUnit], timers = [], nextTimer = 0, blobs = [],
      trace = [(7, \<lparr>psStatus = SLoading, psProgress = 0, psMessage = ''Loading FFmpeg...'',
                    psLogs = []\<rparr>)],
      awaitingLoad = [], reading = []\<rparr>"
  by (simp add: loadedClient_def newClient_True loadedResponse_def run_defs)

lemma dispatchedClient_eq:
  "dispatchedClient =
     \<lparr>worker = Some 0, isLoaded = True, loadPromise = Some 0, currentCallback = Some 7,
      logs = [], timeoutId = Some 0, sab = True,
      workers =
        [\<lparr>listeners = [TrimResult 1],
          posted = [MLoad,
                    MExecute \<lparr>cmdType = Trim, inputData = Some [1, 2, 3], clips = None,
                              settings = STrim trimSettings0\<rparr>],
          terminated = False\<rparr>],
      promises = [Resolved VUnit, Pending], timers = [(0, 7)], nextTimer = 1, blobs = [],
      trace = [(7, \<lparr>psStatus = SLoading, psProgress = 0, psMessage = ''Loading FFmpeg...'',
                    psLogs = []\<rparr>)],
      awaitingLoad = [], reading = []\<rparr>"
  by (simp add: dispatchedClient_def loadedClient_eq run_defs)

lemma timedOutClient_eq:
  "timedOutClient =
     \<lparr>worker = Some 1, isLoaded = False, loadPromise = None, currentCallback = Some 7,
      logs = [], timeoutId = None, sab = True,
      workers =
        [\<lparr>listeners = [TrimResult 1],
          posted = [MLoad,
                    MExecute \<lparr>cmdType = Trim, inputData = Some [1, 2, 3], clips = None,
                              settings = STrim trimSettings0\<rparr>],
          terminated = True\<rparr>,
         \<lparr>listeners = [], posted = [], terminated = False\<rparr>],
      promises = [Resolved VUnit, Pending], timers = [], nextTimer = 1, blobs = [],
      trace = [(7, \<lparr>psStatus = SLoading, psProgress = 0, psMessage = ''Loading FFmpeg...'',
                    psLogs = []\<rparr>),
               (7, \<lparr>psStatus = SError, psProgress = 0, psMessage = timeoutMessage,
                    psLogs = []\<rparr>)],
      awaitingLoad = [], reading = []\<rparr>"
  by (simp add: timedOutClient_def dispatchedClient_eq run_defs)

text \<open>
  C1, as stated, fails: the trim below was posted to the worker, its timer expired, and
  neither \<open>resolve\<close> nor \<open>reject\<close> has fired. Its listener is left on the terminated
  worker, which delivers nothing, and the answer that came late was dropped.
\<close>

theorem dispatched_call_unsettled_counterexample:
  "MExecute \<lparr>cmdType = Trim, inputData = Some [1, 2, 3], clips = None,
              settings = STrim trimSettings0\<rparr> \<in> set (postedTo 0 timedOutClient) \<and>
   promises timedOutClient ! 1 = Pending \<and>
   terminated (workers timedOutClient ! 0) \<and>
   listenersOf 1 timedOutClient = []"
  by (simp add: timedOutClient_eq postedTo_def listenersOf_def)

subsection \<open>After terminate\<close>

lemma terminate_fields [simp]:
  "worker (terminate w) = None" "isLoaded (terminate w) = False"
  "loadPromise (terminate w) = None" "sab (terminate w) = sab w"
  "length (workers (terminate w)) = length (workers w)"
  "awaitingLoad (terminate w) = awaitingLoad w" "reading (terminate w) = reading w"
  "trace (terminate w) = trace w" "timeoutId (terminate w) = None"
  by (simp_all add: terminate_def clearTimeout_def Let_def split: option.splits)

lemma submit_without_worker:
  assumes "sab w" "\<not> isLoaded w" "loadPromise w = None" "worker w = None"
  shows "failsWithoutContext w (submit cmd cb w)"
  using assms
  by (simp add: failsWithoutContext_def submit_def load_def newPromise_def settle_def
      awaitLoad_def outcomeState_def Let_def nth_append)

text \<open>
  C9, as amended. After \<open>terminate()\<close> the session is unloaded, no load is memoized
  and the client has no worker. None is created on the next use: every command
  called then has its promise rejected with "Worker not initialized" and leaves the
  client without a worker. (Only \<open>initWorker\<close> makes a new one; the timeout handler
  calls it right after \<open>terminate\<close>.)
\<close>

theorem terminate_leaves_no_context:
  assumes "sab w"
  shows "\<not> isLoaded (terminate w) \<and> loadPromise (terminate w) = None \<and>
    worker (terminate w) = None \<and>
    failsWithoutContext w (trim f ts cb (terminate w)) \<and>
    failsWithoutContext w (extractFrames f fs cb (terminate w)) \<and>
    failsWithoutContext w (convert f cs cb (terminate w)) \<and>
    (2 \<le> length cls \<longrightarrow> failsWithoutContext w (merge cls ms cb (terminate w)))"
proof -
  have "failsWithoutContext (terminate w) (submit cmd cb (terminate w))" for cmd
    using assms by (intro submit_without_worker) simp_all
  then have "failsWithoutContext w (submit cmd cb (terminate w))" for cmd
    by (simp add: failsWithoutContext_def)
  then show ?thesis
    by (simp add: trim_def extractFrames_def convert_def merge_def)
qed

theorem terminate_leaves_no_context_witness:
  "sab loadedClient \<and> 2 \<le> length twoClips \<and>
   \<not> isLoaded (terminate loadedClient) \<and> worker (terminate loadedClient) = None \<and>
   failsWithoutContext loadedClient (trim (Readable [1, 2, 3]) trimSettings0 7 (terminate loadedClient)) \<and>
   failsWithoutContext loadedClient (merge twoClips \<lparr>format = Webm\<rparr> 7 (terminate loadedClient))"
proof -
  have a: "sab loadedClient" by (simp add: loadedClient_eq)
  have b: "2 \<le> length twoClips" by (simp add: twoClips_def)
  from terminate_leaves_no_context
    [OF a, of "Readable [1, 2, 3]" trimSettings0 7 "\<lparr>fps = 1\<rparr>" "\<lparr>quality = Low\<rparr>" twoClips "\<lparr>format = Webm\<rparr>"]
    a b
  show ?thesis by simp
qed

lemma terminatedClient_eq:
  "terminatedClient =
     \<lparr>worker = None, isLoaded = False, loadPromise = Some 2, currentCallback = None,
      logs = [], timeoutId = None, sab = True,
      workers = [\<lparr>listeners = [], posted = [MLoad], terminated = True\<rparr>],
      promises = [Resolved VUnit, Rejected ''Worker not initialized'',
                  Rejected ''Worker not initialized'', Rejected ''Worker not initialized''],
      timers = [], nextTimer = 0, blobs = [],
      trace = [(7, \<lparr>psStatus = SLoading, psProgress = 0, psMessage = ''Loading FFmpeg...'',
                    psLogs = []\<rparr>)],
      awaitingLoad = [], reading = []\<rparr>"
  by (simp add: terminatedClient_def loadedClient_eq run_defs)

text \<open>
  C9, as stated, fails: after \<open>terminate()\<close> on a loaded client, the next trim is
  rejected, no worker has been created, and the trim after it is rejected too.
\<close>

theorem no_lazy_context_counterexample:
  "worker terminatedClient = None \<and>
   length (workers terminatedClient) = 1 \<and>
   terminated (workers terminatedClient ! 0) \<and>
   promises terminatedClient ! 1 = Rejected ''Worker not initialized'' \<and>
   promises terminatedClient ! 3 = Rejected ''Worker not initialized''"
  by (simp add: terminatedClient_eq)

subsection \<open>A load that fails\<close>

lemma handleMessage_fields [simp]:
  "workers (handleMessage r w) = workers w" "worker (handleMessage r w) = worker w"
  "sab (handleMessage r w) = sab w" "loadPromise (handleMessage r w) = loadPromise w"
  "awaitingLoad (handleMessage r w) = awaitingLoad w" "reading (handleMessage r w) = reading w"
  "isLoaded (handleMessage r w) = (rtype r = RLoaded \<or> isLoaded w)"
  by (cases "rtype r"; simp add: handleMessage_def callCb_def clearTimeout_def Let_def
      split: option.splits)+

lemma removeListener_fields [simp]:
  "worker (removeListener l w) = worker w" "sab (removeListener l w) = sab w"
  "isLoaded (removeListener l w) = isLoaded w" "loadPromise (removeListener l w) = loadPromise w"
  "length (workers (removeListener l w)) = length (workers w)"
  "awaitingLoad (removeListener l w) = awaitingLoad w" "reading (removeListener l w) = reading w"
  "postedTo k (removeListener l w) = postedTo k w"
  by (auto simp add: removeListener_def postedTo_def nth_list_update split: option.splits)

lemma fold_settle_fields [simp]:
  "worker (fold (\<lambda>s. settle (f s) v) ss w) = worker w"
  "workers (fold (\<lambda>s. settle (f s) v) ss w) = workers w"
  "sab (fold (\<lambda>s. settle (f s) v) ss w) = sab w"
  "isLoaded (fold (\<lambda>s. settle (f s) v) ss w) = isLoaded w"
  "loadPromise (fold (\<lambda>s. settle (f s) v) ss w) = loadPromise w"
  "length (promises (fold (\<lambda>s. settle (f s) v) ss w)) = length (promises w)"
  by (induction ss arbitrary: w) simp_all

lemma rejectLoad_fields [simp]:
  "worker (rejectLoad p m w) = worker w" "workers (rejectLoad p m w) = workers w"
  "sab (rejectLoad p m w) = sab w" "isLoaded (rejectLoad p m w) = isLoaded w"
  "loadPromise (rejectLoad p m w) = loadPromise w"
  "length (promises (rejectLoad p m w)) = length (promises w)"
  by (simp_all add: rejectLoad_def Let_def)

lemma rejectLoad_pending:
  assumes "p < length (promises w)" "promises w ! p = Pending"
  shows "promises (rejectLoad p m w) ! p = Rejected m"
proof -
  let ?w1 = "settle p (Rejected m) w"
  let ?w2 = "?w1\<lparr>awaitingLoad := filter (\<lambda>x. fst x \<noteq> p) (awaitingLoad ?w1)\<rparr>"
  have s: "promises ?w2 ! p = Rejected m" using assms by (simp add: settle_pending)
  have "keeps ?w2 (rejectLoad p m w)"
    unfolding rejectLoad_def Let_def by (rule keeps_fold_settle)
  with s assms(1) show ?thesis by (simp add: keeps_def)
qed

lemma postedTo_rejectLoad [simp]: "postedTo k (rejectLoad p m w) = postedTo k w"
  by (simp add: postedTo_def)

lemma postedTo_handleMessage [simp]: "postedTo k (handleMessage r w) = postedTo k w"
  by (simp add: postedTo_def)

lemma deliver_error_to_load:
  assumes "worker w = Some k" "k < length (workers w)" "\<not> terminated (workers w ! k)"
    and "listeners (workers w ! k) = [HandleLoad p]" and "rtype r = RError"
  shows "deliver k r e w =
     rejectLoad p (errorMessage (payloadError r)) (removeListener (HandleLoad p) (handleMessage r w))"
  using assms by (simp add: deliver_def handleLoad_def)

lemma initWorker_terminate_fields [simp]:
  "worker (initWorker w) = Some (length (workers w))"
  "length (workers (initWorker w)) = Suc (length (workers w))"
  "sab (initWorker w) = sab w" "isLoaded (initWorker w) = isLoaded w"
  "loadPromise (initWorker w) = loadPromise w"
  "postedTo (length (workers w)) (initWorker w) = []"
  "listenersOf (length (workers w)) (initWorker w) = []"
  by (simp_all add: initWorker_def postedTo_def listenersOf_def)

text \<open>
  C3, as amended. When the engine answers the first load of a fresh worker with an
  error, the load promise is rejected with the engine's message and the session stays
  unloaded. The rejected promise stays memoized: a later \<open>load\<close> hands it back and
  posts nothing. A new load message is posted only after the worker has been torn
  down and made anew (\<open>terminate\<close>, then \<open>initWorker\<close>).
\<close>

theorem load_failure_memoized:
  assumes "sab w" "\<not> isLoaded w" "loadPromise w = None" "worker w = Some k"
    and "k < length (workers w)" "\<not> terminated (workers w ! k)"
    and "listeners (workers w ! k) = []" and "rtype r = RError"
  shows "(let p = length (promises w);
              w2 = deliver k r e (snd (load cb w));
              w3 = initWorker (terminate w2)
          in promises w2 ! p = Rejected (errorMessage (payloadError r)) \<and>
             \<not> isLoaded w2 \<and>
             load cb' w2 = (LoadFollows p, w2) \<and>
             postedTo k w2 = postedTo k w @ [MLoad] \<and>
             fst (load cb' w3) = LoadFollows (length (promises w2)) \<and>
             postedTo (length (workers w2)) (snd (load cb' w3)) = [MLoad])"
proof -
  let ?p = "length (promises w)"
  let ?w1 = "snd (load cb w)"
  let ?m = "errorMessage (payloadError r)"
  let ?w2 = "deliver k r e ?w1"
  let ?w3 = "initWorker (terminate ?w2)"
  note f = load_first [OF assms(1-5), of cb]
  have ls: "listeners (workers ?w1 ! k) = [HandleLoad ?p]"
    using f(7,9) assms(5,7) by (simp add: listenersOf_def)
  have kl: "k < length (workers ?w1)" using f(9) assms(5) by simp
  have nt: "\<not> terminated (workers ?w1 ! k)" using f(10) assms(6) by simp
  have d: "?w2 = rejectLoad ?p ?m (removeListener (HandleLoad ?p) (handleMessage r ?w1))"
    by (rule deliver_error_to_load [OF f(8) kl nt ls assms(8)])
  have pend: "promises (removeListener (HandleLoad ?p) (handleMessage r ?w1)) ! ?p = Pending"
    "?p < length (promises (removeListener (HandleLoad ?p) (handleMessage r ?w1)))"
    using f(6) by simp_all
  have r1: "promises ?w2 ! ?p = Rejected ?m"
    unfolding d by (rule rejectLoad_pending [OF pend(2,1)])
  have r2: "\<not> isLoaded ?w2" "sab ?w2" "loadPromise ?w2 = Some ?p"
    unfolding d using f(2,3,4) assms(8) by simp_all
  have r3: "load cb' ?w2 = (LoadFollows ?p, ?w2)"
    by (rule load_in_flight [OF r2(2) r2(1) r2(3)])
  have r4: "postedTo k ?w2 = postedTo k w @ [MLoad]"
    unfolding d using f(5) by simp
  have g: "sab ?w3" "\<not> isLoaded ?w3" "loadPromise ?w3 = None"
    "worker ?w3 = Some (length (workers ?w2))" "length (workers ?w2) < length (workers ?w3)"
    using r2(2) by simp_all
  note h = load_first [OF g, of cb']
  have r5: "fst (load cb' ?w3) = LoadFollows (length (promises ?w2))"
    using h(1) by simp
  have "postedTo (length (workers ?w2)) ?w3 = []"
    using initWorker_terminate_fields(6) [of "terminate ?w2"] by simp
  with h(5) have r6: "postedTo (length (workers ?w2)) (snd (load cb' ?w3)) = [MLoad]"
    by simp
  from r1 r2(1) r3 r4 r5 r6 show ?thesis by (simp add: Let_def)
qed

lemma failedLoadClient_eq:
  "failedLoadClient =
     \<lparr>worker = Some 0, isLoaded = False, loadPromise = Some 0, currentCallback = None,
      logs = [], timeoutId = None, sab = True,
      workers = [\<lparr>listeners = [], posted = [MLoad], terminated = False\<rparr>],
      promises = [Rejected ''Failed to load FFmpeg: no core''], timers = [], nextTimer = 0,
      blobs = [],
      trace = [(7, \<lparr>psStatus = SLoading, psProgress = 0, psMessage = ''Loading FFmpeg...'',
                    psLogs = []\<rparr>)],
      awaitingLoad = [], reading = []\<rparr>"
  by (simp add: failedLoadClient_def newClient_True errorResponse_def emptyPayload_def run_defs)

lemma failedLoadClient_run:
  "failedLoadClient =
     deliver 0 (errorResponse ''Failed to load FFmpeg: no core'') envs0
       (snd (load (Some 7) (newClient True)))"
  by (simp add: failedLoadClient_def run_def)

theorem load_failure_memoized_witness:
  "sab (newClient True) \<and> \<not> isLoaded (newClient True) \<and> loadPromise (newClient True) = None \<and>
   worker (newClient True) = Some 0 \<and> 0 < length (workers (newClient True)) \<and>
   \<not> terminated (workers (newClient True) ! 0) \<and> listeners (workers (newClient True) ! 0) = [] \<and>
   rtype (errorResponse ''Failed to load FFmpeg: no core'') = RError \<and>
   promises failedLoadClient ! 0 = Rejected ''Failed to load FFmpeg: no core'' \<and>
   \<not> isLoaded failedLoadClient \<and>
   load (Some 8) failedLoadClient = (LoadFollows 0, failedLoadClient) \<and>
   postedTo 0 failedLoadClient = [MLoad] \<and>
   fst (load (Some 8) (initWorker (terminate failedLoadClient))) = LoadFollows 1 \<and>
   postedTo 1 (snd (load (Some 8) (initWorker (terminate failedLoadClient)))) = [MLoad]"
proof -
  have a: "sab (newClient True)" "\<not> isLoaded (newClient True)" "loadPromise (newClient True) = None"
    "worker (newClient True) = Some 0" "0 < length (workers (newClient True))"
    "\<not> terminated (workers (newClient True) ! 0)" "listeners (workers (newClient True) ! 0) = []"
    "rtype (errorResponse ''Failed to load FFmpeg: no core'') = RError"
    by (simp_all add: newClient_True errorResponse_def)
  have m: "errorMessage (payloadError (errorResponse ''Failed to load FFmpeg: no core'')) =
    ''Failed to load FFmpeg: no core''"
    by (simp add: errorMessage_def payloadError_def errorResponse_def emptyPayload_def)
  have n: "length (promises (newClient True)) = 0" "postedTo 0 (newClient True) = []"
    "length (promises failedLoadClient) = 1" "length (workers failedLoadClient) = 1"
    by (simp_all add: newClient_True postedTo_def failedLoadClient_eq)
  from load_failure_memoized [OF a, of envs0 "Some 7" "Some 8"] a
  show ?thesis
    unfolding Let_def failedLoadClient_run [symmetric] m n by simp
qed

text \<open>
  C3, as stated, fails: after a failed load, the next \<open>load\<close> posts no second load
  message and hands back the failure of the first.
\<close>

theorem load_not_retried_counterexample:
  "postedTo 0 failedLoadClient = [MLoad] \<and>
   postedTo 0 (snd (load (Some 8) failedLoadClient)) = [MLoad] \<and>
   outcomeState (fst (load (Some 8) failedLoadClient)) (snd (load (Some 8) failedLoadClient)) =
     Rejected ''Failed to load FFmpeg: no core''"
  by (simp add: failedLoadClient_eq load_def postedTo_def outcomeState_def)

subsection \<open>Timeout and recovery\<close>

lemma submit_on_fresh:
  assumes "freshContext k w"
  shows "fst (submit cmd cb w) = length (promises w)"
    and "promises (snd (submit cmd cb w)) = promises w @ [Pending, Pending]"
    and "worker (snd (submit cmd cb w)) = Some k"
    and "k < length (workers (snd (submit cmd cb w)))"
    and "\<not> terminated (workers (snd (submit cmd cb w)) ! k)"
    and "listeners (workers (snd (submit cmd cb w)) ! k) = [HandleLoad (Suc (length (promises w)))]"
    and "awaitingLoad (snd (submit cmd cb w)) =
           [(Suc (length (promises w)),
             \<lparr>susCmd = cmd, susCallback = cb, susPromise = length (promises w)\<rparr>)]"
    and "reading (snd (submit cmd cb w)) = []"
  using assms
  by (simp_all add: freshContext_def submit_def load_def newPromise_def addListener_def
      postMessage_def callCb_def awaitLoad_def outcomeState_def Let_def nth_append)

lemma update_second: "(ps @ [a, b])[Suc (length ps) := v] = ps @ [a, v]"
  by (induction ps) simp_all

lemma deliver_loaded:
  assumes "promises w = ps @ [Pending, Pending]" "worker w = Some k" "k < length (workers w)"
    and "\<not> terminated (workers w ! k)"
    and "listeners (workers w ! k) = [HandleLoad (Suc (length ps))]"
    and "awaitingLoad w = [(Suc (length ps), s)]" "reading w = []"
  shows "promises (deliver k loadedResponse e w) = ps @ [Pending, Resolved VUnit]"
    and "worker (deliver k loadedResponse e w) = Some k"
    and "k < length (workers (deliver k loadedResponse e w))"
    and "\<not> terminated (workers (deliver k loadedResponse e w) ! k)"
    and "listeners (workers (deliver k loadedResponse e w) ! k) = []"
    and "reading (deliver k loadedResponse e w) = [s]"
  using assms
  by (simp_all add: deliver_def loadedResponse_def handleMessage_def handleLoad_def
      removeListener_def resolveLoad_def settle_def afterLoad_def startTimeout_def
      clearTimeout_def Let_def nth_append update_second split: option.splits)

lemma readDone_dispatches:
  assumes "reading w = [\<lparr>susCmd = cmd, susCallback = cb, susPromise = c\<rparr>]"
    and "worker w = Some k" "k < length (workers w)" "\<not> terminated (workers w ! k)"
    and "listeners (workers w ! k) = []" "inputsReadable cmd"
  shows "promises (readDone c w) = promises w"
    and "worker (readDone c w) = Some k"
    and "k < length (workers (readDone c w))"
    and "\<not> terminated (workers (readDone c w) ! k)"
    and "listeners (workers (readDone c w) ! k) = [resultListener cmd c]"
proof -
  have "promises (readDone c w) = promises w \<and> worker (readDone c w) = Some k \<and>
    k < length (workers (readDone c w)) \<and> \<not> terminated (workers (readDone c w) ! k) \<and>
    listeners (workers (readDone c w) ! k) = [resultListener cmd c]"
    using assms
    by (cases cmd)
      (auto simp add: readDone_def dispatch_def execute_def addListener_def postMessage_def
        inputsReadable_def resultListener_def Let_def)
  then show "promises (readDone c w) = promises w"
    and "worker (readDone c w) = Some k"
    and "k < length (workers (readDone c w))"
    and "\<not> terminated (workers (readDone c w) ! k)"
    and "listeners (workers (readDone c w) ! k) = [resultListener cmd c]"
    by simp_all
qed

lemma resultListener_cases:
  "resultListener cmd c = TrimResult c \<or> resultListener cmd c = FramesResult c \<or>
   resultListener cmd c = ConvertResult c \<or>
   resultListener cmd c = MergeResult (case cmd of CmdMerge cs st \<Rightarrow> st | _ \<Rightarrow> \<lparr>format = Mp4\<rparr>) c"
  by (cases cmd) (simp_all add: resultListener_def)

lemma deliver_complete:
  assumes "worker w = Some k" "k < length (workers w)" "\<not> terminated (workers w ! k)"
    and "listeners (workers w ! k) = [resultListener cmd c]"
    and "c < length (promises w)" "promises w ! c = Pending"
    and "rtype r = RComplete" "hasOutput (resultListener cmd c) r"
  shows "\<exists>res. promises (deliver k r e w) ! c = Resolved (VResult res)"
proof -
  have d: "deliver k r e w =
    runListener (resultListener cmd c) r (e (resultListener cmd c)) (handleMessage r w)"
    using assms(2,3,4) by (simp add: deliver_def)
  have "c < length (promises (handleMessage r w))" "promises (handleMessage r w) ! c = Pending"
    using assms(5,6) by simp_all
  from handleResult_resolves [OF this resultListener_cases assms(7,8)] d
  show ?thesis by simp
qed

lemma command_succeeds_on_fresh:
  assumes "freshContext k w" "inputsReadable cmd" "rtype r = RComplete"
    and "hasOutput (resultListener cmd (length (promises w))) r"
  shows "\<exists>res. promises (deliver k r e2 (readDone (length (promises w))
            (deliver k loadedResponse e1 (snd (submit cmd cb w))))) ! length (promises w) =
          Resolved (VResult res)"
proof -
  let ?c = "length (promises w)"
  let ?s = "\<lparr>susCmd = cmd, susCallback = cb, susPromise = ?c\<rparr>"
  let ?w1 = "snd (submit cmd cb w)"
  let ?w2 = "deliver k loadedResponse e1 ?w1"
  let ?w3 = "readDone ?c ?w2"
  note a = submit_on_fresh [OF assms(1), of cmd cb]
  note b = deliver_loaded [OF a(2,3,4,5,6,7,8), of e1]
  note c = readDone_dispatches [OF b(6,2,3,4,5) assms(2)]
  have p: "?c < length (promises ?w3)" "promises ?w3 ! ?c = Pending"
    unfolding c(1) b(1) by (simp_all add: nth_append)
  show ?thesis
    by (rule deliver_complete [OF c(2,3,4,5) p assms(3,4)])
qed

lemma invoke_submit: "enoughClips cmd \<Longrightarrow> invoke cmd cb w = submit cmd cb w"
  by (cases cmd)
    (simp_all add: invoke_def enoughClips_def trim_def extractFrames_def convert_def merge_def)

lemma timerFires_expired:
  assumes "map_of (timers w) t = Some cb"
  shows "promises (timerFires t w) = promises w"
    and "trace (timerFires t w) =
           trace w @ [(cb, \<lparr>psStatus = SError, psProgress = 0, psMessage = timeoutMessage,
                            psLogs = logs w\<rparr>)]"
    and "worker (timerFires t w) = Some (length (workers w))"
    and "length (workers (timerFires t w)) = Suc (length (workers w))"
    and "workers (timerFires t w) ! length (workers w) =
           \<lparr>listeners = [], posted = [], terminated = False\<rparr>"
    and "\<not> isLoaded (timerFires t w)" and "loadPromise (timerFires t w) = None"
    and "sab (timerFires t w) = sab w"
    and "awaitingLoad (timerFires t w) = awaitingLoad w"
    and "reading (timerFires t w) = reading w"
    and "worker w = Some j \<Longrightarrow> j < length (workers w) \<Longrightarrow> terminated (workers (timerFires t w) ! j)"
  using assms
  by (simp_all add: timerFires_def callCb_def terminate_def clearTimeout_def initWorker_def
      Let_def nth_append split: option.splits)

text \<open>
  C2, as amended. When the timer of an operation expires while no command of the
  client is suspended, the callback of the operation receives an error status with the
  timeout message; no promise is settled by the expiry, so the pending promise of the
  operation stays pending; the worker in use is terminated and a new worker replaces
  it, with the session unloaded. A command called afterwards, whose input can be
  read, succeeds once the new worker has answered the load and then the command with
  a complete event that carries its output.
\<close>

theorem timeout_recovers_context:
  assumes "map_of (timers w) t = Some cb" "sab w" "awaitingLoad w = []" "reading w = []"
    and "enoughClips cmd" "inputsReadable cmd" "rtype r = RComplete"
    and "hasOutput (resultListener cmd (length (promises w))) r"
  shows "(let w1 = timerFires t w;
              k = length (workers w);
              c = length (promises w);
              w2 = deliver k r e2 (readDone c (deliver k loadedResponse e1 (snd (invoke cmd cb' w1))))
          in promises w1 = promises w \<and>
             trace w1 = trace w @ [(cb, \<lparr>psStatus = SError, psProgress = 0,
                                         psMessage = timeoutMessage, psLogs = logs w\<rparr>)] \<and>
             (\<forall>j. worker w = Some j \<longrightarrow> j < length (workers w) \<longrightarrow> terminated (workers w1 ! j)) \<and>
             freshContext k w1 \<and>
             fst (invoke cmd cb' w1) = c \<and>
             (\<exists>res. promises w2 ! c = Resolved (VResult res)))"
proof -
  let ?w1 = "timerFires t w"
  note f = timerFires_expired [OF assms(1)]
  have fresh: "freshContext (length (workers w)) ?w1"
    using f(3-10) assms(2,3,4) by (simp add: freshContext_def)
  have h: "hasOutput (resultListener cmd (length (promises ?w1))) r"
    using assms(8) f(1) by simp
  have i: "invoke cmd cb' ?w1 = submit cmd cb' ?w1"
    by (rule invoke_submit [OF assms(5)])
  from command_succeeds_on_fresh [OF fresh assms(6,7) h, of e2 e1 cb']
  have "\<exists>res. promises (deliver (length (workers w)) r e2 (readDone (length (promises w))
            (deliver (length (workers w)) loadedResponse e1 (snd (invoke cmd cb' ?w1))))) !
          length (promises w) = Resolved (VResult res)"
    by (simp add: f(1) i)
  moreover have "fst (invoke cmd cb' ?w1) = length (promises w)"
    using submit_on_fresh(1) [OF fresh, of cmd cb'] by (simp add: i f(1))
  ultimately show ?thesis
    using f(1,2) f(11) fresh by (simp add: Let_def)
qed

lemma convertDispatched_eq:
  "convertDispatched =
     \<lparr>worker = Some 0, isLoaded = True, loadPromise = Some 0, currentCallback = Some 7,
      logs = [], timeoutId = Some 0, sab = True,
      workers =
        [\<lparr>listeners = [ConvertResult 1],
          posted = [MLoad,
                    MExecute \<lparr>cmdType = Convert, inputData = Some [4, 5], clips = None,
                              settings = SConvert \<lparr>quality = High\<rparr>\<rparr>],
          terminated = False\<rparr>],
      promises = [Resolved VUnit, Pending], timers = [(0, 7)], nextTimer = 1, blobs = [],
      trace = [(7, \<lparr>psStatus = SLoading, psProgress = 0, psMessage = ''Loading FFmpeg...'',
                    psLogs = []\<rparr>)],
      awaitingLoad = [], reading = []\<rparr>"
  by (simp add: convertDispatched_def loadedClient_eq run_defs)

lemma convertTimedOut_eq:
  "convertTimedOut =
     \<lparr>worker = Some 1, isLoaded = False, loadPromise = None, currentCallback = Some 7,
      logs = [], timeoutId = None, sab = True,
      workers =
        [\<lparr>listeners = [ConvertResult 1],
          posted = [MLoad,
                    MExecute \<lparr>cmdType = Convert, inputData = Some [4, 5], clips = None,
                              settings = SConvert \<lparr>quality = High\<rparr>\<rparr>],
          terminated = True\<rparr>,
         \<lparr>listeners = [], posted = [], terminated = False\<rparr>],
      promises = [Resolved VUnit, Pending], timers = [], nextTimer = 1, blobs = [],
      trace = [(7, \<lparr>psStatus = SLoading, psProgress = 0, psMessage = ''Loading FFmpeg...'',
                    psLogs = []\<rparr>),
               (7, \<lparr>psStatus = SError, psProgress = 0, psMessage = timeoutMessage,
                    psLogs = []\<rparr>)],
      awaitingLoad = [], reading = []\<rparr>"
  by (simp add: convertTimedOut_def convertDispatched_eq run_defs)

theorem timeout_recovers_context_witness:
  "map_of (timers convertDispatched) 0 = Some 7 \<and> sab convertDispatched \<and>
   awaitingLoad convertDispatched = [] \<and> reading convertDispatched = [] \<and>
   enoughClips (CmdTrim (Readable [1, 2, 3]) trimSettings0) \<and>
   inputsReadable (CmdTrim (Readable [1, 2, 3]) trimSettings0) \<and>
   rtype (completeResponse [9, 9]) = RComplete \<and>
   hasOutput (resultListener (CmdTrim (Readable [1, 2, 3]) trimSettings0) 2) (completeResponse [9, 9]) \<and>
   promises convertTimedOut = promises convertDispatched \<and>
   trace convertTimedOut = trace convertDispatched @
     [(7, \<lparr>psStatus = SError, psProgress = 0, psMessage = timeoutMessage, psLogs = []\<rparr>)] \<and>
   terminated (workers convertTimedOut ! 0) \<and>
   freshContext 1 convertTimedOut \<and>
   fst (invoke (CmdTrim (Readable [1, 2, 3]) trimSettings0) 8 convertTimedOut) = 2 \<and>
   (\<exists>res. promises (deliver 1 (completeResponse [9, 9]) envs0 (readDone 2
       (deliver 1 loadedResponse envs0
         (snd (invoke (CmdTrim (Readable [1, 2, 3]) trimSettings0) 8 convertTimedOut))))) ! 2 =
     Resolved (VResult res))"
proof -
  have a: "map_of (timers convertDispatched) 0 = Some 7" "sab convertDispatched"
    "awaitingLoad convertDispatched = []" "reading convertDispatched = []"
    "enoughClips (CmdTrim (Readable [1, 2, 3]) trimSettings0)"
    "inputsReadable (CmdTrim (Readable [1, 2, 3]) trimSettings0)"
    "rtype (completeResponse [9, 9]) = RComplete"
    "hasOutput (resultListener (CmdTrim (Readable [1, 2, 3]) trimSettings0)
       (length (promises convertDispatched))) (completeResponse [9, 9])"
    by (simp_all add: convertDispatched_eq inputsReadable_def enoughClips_def fileBytes_def
        resultListener_def completeResponse_def payloadData_def emptyPayload_def)
  have n: "length (promises convertDispatched) = 2" "length (workers convertDispatched) = 1"
    "worker convertDispatched = Some 0" "logs convertDispatched = []"
    by (simp_all add: convertDispatched_eq)
  have t: "timerFires 0 convertDispatched = convertTimedOut"
    by (simp add: convertTimedOut_def run_def)
  from timeout_recovers_context [OF a, of envs0 envs0 8] a
  show ?thesis
    unfolding Let_def n t by simp
qed

text \<open>
  C2, as stated, fails: the timer of the posted convert has expired and its callback
  has received the timeout message, yet its promise is pending, not rejected.
\<close>

theorem timeout_leaves_promise_pending_counterexample:
  "last (trace convertTimedOut) =
     (7, \<lparr>psStatus = SError, psProgress = 0, psMessage = timeoutMessage, psLogs = []\<rparr>) \<and>
   promises convertTimedOut ! 1 = Pending \<and>
   \<not> (\<exists>m. promises convertTimedOut ! 1 = Rejected m)"
  by (simp add: convertTimedOut_eq)

subsection \<open>A promise that nothing can settle\<close>

lemma abandoned_pending: "abandoned c w \<Longrightarrow> promises w ! c = Pending"
  by (simp add: abandoned_def)

lemma abandoned_fields:
  assumes "abandoned c w" "promises w' = promises w" "reading w' = reading w"
    and "awaitingLoad w' = awaitingLoad w" "workers w' = workers w"
  shows "abandoned c w'"
  using assms by (simp add: abandoned_def)

lemma abandoned_callCb [simp]: "abandoned c (callCb cb s w) = abandoned c w"
  by (simp add: abandoned_def callCb_def)

lemma abandoned_settle: "abandoned c w \<Longrightarrow> q \<noteq> c \<Longrightarrow> abandoned c (settle q v w)"
  by (simp add: abandoned_def settle_other)

lemma abandoned_newPromise:
  "abandoned c w \<Longrightarrow> abandoned c (snd (newPromise w)) \<and> fst (newPromise w) \<noteq> c"
  by (auto simp add: abandoned_def newPromise_def nth_append)

lemma list_all_update:
  "list_all P xs \<Longrightarrow> P x \<Longrightarrow> list_all P (xs[k := x])"
  using set_update_subset_insert [of xs k x] by (auto simp add: list_all_iff)

lemma abandoned_workers_update:
  assumes "abandoned c w" "k < length (workers w)"
    and "terminated wk \<or> list_all (\<lambda>l. listenerPromise l \<noteq> c) (listeners wk)"
  shows "abandoned c (w\<lparr>workers := (workers w)[k := wk]\<rparr>)"
  using assms by (simp add: abandoned_def list_all_update)

lemma abandoned_worker_nth:
  "abandoned c w \<Longrightarrow> k < length (workers w) \<Longrightarrow>
   terminated (workers w ! k) \<or> list_all (\<lambda>l. listenerPromise l \<noteq> c) (listeners (workers w ! k))"
  by (simp add: abandoned_def list_all_length)

lemma abandoned_addListener:
  assumes "abandoned c w" "listenerPromise l \<noteq> c"
  shows "abandoned c (addListener k l w)"
proof (cases "k < length (workers w)")
  case True
  from abandoned_worker_nth [OF assms(1) True] assms(2)
  have "terminated ((workers w ! k)\<lparr>listeners := listeners (workers w ! k) @ [l]\<rparr>) \<or>
    list_all (\<lambda>l. listenerPromise l \<noteq> c)
      (listeners ((workers w ! k)\<lparr>listeners := listeners (workers w ! k) @ [l]\<rparr>))"
    by auto
  from abandoned_workers_update [OF assms(1) True this] True show ?thesis
    by (simp add: addListener_def)
next
  case False
  with assms(1) show ?thesis by (simp add: addListener_def)
qed

lemma abandoned_removeListener: "abandoned c w \<Longrightarrow> abandoned c (removeListener l w)"
proof (cases "worker w")
  case None
  assume "abandoned c w"
  with None show ?thesis by (simp add: removeListener_def)
next
  case (Some k)
  assume a: "abandoned c w"
  show ?thesis
  proof (cases "k < length (workers w)")
    case True
    from abandoned_worker_nth [OF a True]
    have "terminated ((workers w ! k)\<lparr>listeners := removeAll l (listeners (workers w ! k))\<rparr>) \<or>
      list_all (\<lambda>l. listenerPromise l \<noteq> c)
        (listeners ((workers w ! k)\<lparr>listeners := removeAll l (listeners (workers w ! k))\<rparr>))"
      by (auto simp add: list_all_iff)
    from abandoned_workers_update [OF a True this] True Some show ?thesis
      by (simp add: removeListener_def)
  next
    case False
    with a Some show ?thesis by (simp add: removeListener_def)
  qed
qed

lemma abandoned_postMessage: "abandoned c w \<Longrightarrow> abandoned c (postMessage k m w)"
proof (cases "k < length (workers w)")
  case True
  assume a: "abandoned c w"
  from abandoned_worker_nth [OF a True]
  have "terminated ((workers w ! k)\<lparr>posted := posted (workers w ! k) @ [m]\<rparr>) \<or>
    list_all (\<lambda>l. listenerPromise l \<noteq> c)
      (listeners ((workers w ! k)\<lparr>posted := posted (workers w ! k) @ [m]\<rparr>))"
    by simp
  from abandoned_workers_update [OF a True this] True show ?thesis
    by (simp add: postMessage_def)
next
  case False
  assume "abandoned c w"
  with False show ?thesis by (simp add: postMessage_def)
qed

lemma abandoned_createObjectURL [simp]:
  "abandoned c (snd (createObjectURL b w)) = abandoned c w"
  by (simp add: abandoned_def createObjectURL_def Let_def)

lemma abandoned_initWorker: "abandoned c w \<Longrightarrow> abandoned c (initWorker w)"
  by (simp add: abandoned_def initWorker_def)

lemma abandoned_clearTimeout [simp]: "abandoned c (clearTimeout w) = abandoned c w"
  by (simp add: abandoned_def clearTimeout_def split: option.splits)

lemma abandoned_startTimeout [simp]: "abandoned c (startTimeout cb w) = abandoned c w"
  by (simp add: abandoned_def startTimeout_def clearTimeout_def Let_def split: option.splits)

lemma abandoned_terminate: "abandoned c w \<Longrightarrow> abandoned c (terminate w)"
proof -
  assume a: "abandoned c w"
  let ?w1 = "clearTimeout w"
  have a1: "abandoned c ?w1" using a by simp
  have "abandoned c
     (case worker ?w1 of None \<Rightarrow> ?w1
      | Some k \<Rightarrow> if k < length (workers ?w1)
          then ?w1\<lparr>workers := (workers ?w1)[k := (workers ?w1 ! k)\<lparr>terminated := True\<rparr>]\<rparr>
          else ?w1)"
    using a1 by (auto split: option.splits intro: abandoned_workers_update)
  then show ?thesis
    by (simp add: terminate_def Let_def abandoned_def)
qed

lemma abandoned_handleMessage [simp]: "abandoned c (handleMessage r w) = abandoned c w"
  by (cases "rtype r")
    (simp_all add: handleMessage_def Let_def abandoned_def callCb_def clearTimeout_def
      split: option.splits)

lemma abandoned_handleError [simp]: "abandoned c (handleError m w) = abandoned c w"
  by (simp add: handleError_def Let_def split: option.splits)

lemma abandoned_timerFires: "abandoned c w \<Longrightarrow> abandoned c (timerFires t w)"
proof (cases "map_of (timers w) t")
  case None
  assume "abandoned c w"
  with None show ?thesis by (simp add: timerFires_def)
next
  case (Some cb)
  assume a: "abandoned c w"
  let ?w1 = "w\<lparr>timers := filter (\<lambda>x. fst x \<noteq> t) (timers w)\<rparr>"
  have "abandoned c ?w1" using a by (simp add: abandoned_def)
  then have "abandoned c (callCb cb \<lparr>psStatus = SError, psProgress = 0,
      psMessage = timeoutMessage, psLogs = logs ?w1\<rparr> ?w1)" by simp
  from abandoned_initWorker [OF abandoned_terminate [OF this]] Some show ?thesis
    by (simp add: timerFires_def Let_def)
qed

lemma abandoned_frameUrls [simp]: "abandoned c (snd (frameUrls fs w)) = abandoned c w"
proof (induction fs arbitrary: w)
  case Nil
  show ?case by simp
next
  case (Cons f fs)
  have "abandoned c (snd (frameUrls fs (snd (createObjectURL \<lparr>blobParts = snd f, blobType = ''image/jpeg''\<rparr> w)))) =
    abandoned c w"
    by (simp add: Cons.IH)
  then show ?case by (simp add: split_beta Let_def)
qed

lemma abandoned_materialize [simp]:
  "abandoned c (snd (trimMaterialize d e w)) = abandoned c w"
  "abandoned c (snd (convertMaterialize d e w)) = abandoned c w"
  "abandoned c (snd (mergeMaterialize st d e w)) = abandoned c w"
  "abandoned c (snd (framesMaterialize fs e w)) = abandoned c w"
  by (simp_all add: trimMaterialize_def convertMaterialize_def mergeMaterialize_def
      framesMaterialize_def split_beta Let_def)

lemma abandoned_afterLoad:
  "abandoned c w \<Longrightarrow> susPromise s \<noteq> c \<Longrightarrow> abandoned c (afterLoad s w)"
  by (simp add: afterLoad_def Let_def abandoned_def startTimeout_def clearTimeout_def
      split: option.splits)

lemma abandoned_fold_afterLoad:
  "abandoned c w \<Longrightarrow> list_all (\<lambda>s. susPromise s \<noteq> c) ss \<Longrightarrow> abandoned c (fold afterLoad ss w)"
  by (induction ss arbitrary: w) (simp_all add: abandoned_afterLoad)

lemma abandoned_fold_settle:
  "abandoned c w \<Longrightarrow> list_all (\<lambda>s. susPromise s \<noteq> c) ss \<Longrightarrow>
   abandoned c (fold (\<lambda>s. settle (susPromise s) v) ss w)"
  by (induction ss arbitrary: w) (simp_all add: abandoned_settle)

lemma abandoned_ready:
  "abandoned c w \<Longrightarrow>
   list_all (\<lambda>s. susPromise s \<noteq> c) (map snd (filter (\<lambda>x. fst x = p) (awaitingLoad w)))"
  by (auto simp add: abandoned_def list_all_iff)

lemma abandoned_filter_awaiting:
  "abandoned c w \<Longrightarrow> abandoned c (w\<lparr>awaitingLoad := filter P (awaitingLoad w)\<rparr>)"
  by (auto simp add: abandoned_def list_all_iff)

lemma abandoned_resolveLoad:
  assumes "abandoned c w" "p \<noteq> c"
  shows "abandoned c (resolveLoad p w)"
proof -
  let ?w1 = "settle p (Resolved VUnit) w"
  have a1: "abandoned c ?w1" by (rule abandoned_settle [OF assms])
  from abandoned_fold_afterLoad [OF abandoned_filter_awaiting [OF a1] abandoned_ready [OF a1]]
  show ?thesis by (simp add: resolveLoad_def Let_def)
qed

lemma abandoned_rejectLoad:
  assumes "abandoned c w" "p \<noteq> c"
  shows "abandoned c (rejectLoad p m w)"
proof -
  let ?w1 = "settle p (Rejected m) w"
  have a1: "abandoned c ?w1" by (rule abandoned_settle [OF assms])
  from abandoned_fold_settle [OF abandoned_filter_awaiting [OF a1] abandoned_ready [OF a1]]
  show ?thesis by (simp add: rejectLoad_def Let_def)
qed

lemma abandoned_handleLoad:
  "abandoned c w \<Longrightarrow> p \<noteq> c \<Longrightarrow> abandoned c (handleLoad p r w)"
  by (simp add: handleLoad_def abandoned_resolveLoad abandoned_rejectLoad abandoned_removeListener)

lemma abandoned_handleResult:
  assumes "abandoned c w" "p \<noteq> c"
  shows "abandoned c (trimHandleResult p r e w)"
    and "abandoned c (framesHandleResult p r e w)"
    and "abandoned c (convertHandleResult p r e w)"
    and "abandoned c (mergeHandleResult st p r e w)"
  using assms
  by (simp_all add: trimHandleResult_def framesHandleResult_def convertHandleResult_def
      mergeHandleResult_def Let_def split_beta abandoned_settle abandoned_removeListener
      split: option.splits)

lemma abandoned_runListener:
  "abandoned c w \<Longrightarrow> listenerPromise l \<noteq> c \<Longrightarrow> abandoned c (runListener l r e w)"
  by (cases l) (simp_all add: abandoned_handleLoad abandoned_handleResult)

lemma abandoned_fold_listeners:
  "abandoned c w \<Longrightarrow> list_all (\<lambda>l. listenerPromise l \<noteq> c) ls \<Longrightarrow>
   abandoned c (fold (\<lambda>l w'. if P l w' then runListener l r (e l) w' else w') ls w)"
  by (induction ls arbitrary: w) (simp_all add: abandoned_runListener)

lemma abandoned_deliver: "abandoned c w \<Longrightarrow> abandoned c (deliver k r e w)"
proof (cases "k < length (workers w) \<and> \<not> terminated (workers w ! k)")
  case True
  assume a: "abandoned c w"
  from abandoned_worker_nth [OF a, of k] True
  have ls: "list_all (\<lambda>l. listenerPromise l \<noteq> c) (listeners (workers w ! k))" by blast
  have "abandoned c (handleMessage r w)" using a by simp
  from abandoned_fold_listeners [OF this ls] True show ?thesis
    by (simp add: deliver_def)
next
  case False
  assume "abandoned c w"
  with False show ?thesis by (auto simp add: deliver_def)
qed

lemma abandoned_load: "abandoned c w \<Longrightarrow> abandoned c (snd (load cb w))"
proof -
  assume a: "abandoned c w"
  note n = abandoned_newPromise [OF a]
  let ?p = "fst (newPromise w)" and ?w1 = "snd (newPromise w)"
  have lp: "listenerPromise (HandleLoad ?p) \<noteq> c" using n by simp
  have s: "abandoned c (settle ?p (Rejected ''Worker not initialized'') ?w1)"
    using n by (simp add: abandoned_settle)
  have l: "abandoned c (postMessage k MLoad (addListener k (HandleLoad ?p) ?w1))" for k
    using n lp by (simp add: abandoned_postMessage abandoned_addListener)
  have "abandoned c (case worker ?w1 of
           None \<Rightarrow> settle ?p (Rejected ''Worker not initialized'') ?w1
         | Some k \<Rightarrow>
             (let w3 = postMessage k MLoad (addListener k (HandleLoad ?p) ?w1)
              in case cb of None \<Rightarrow> w3
                 | Some cb' \<Rightarrow> callCb cb' \<lparr>psStatus = SLoading, psProgress = 0,
                     psMessage = ''Loading FFmpeg...'', psLogs = []\<rparr> w3))"
    using s l by (simp add: Let_def split: option.splits)
  then have "abandoned c ((case worker ?w1 of
           None \<Rightarrow> settle ?p (Rejected ''Worker not initialized'') ?w1
         | Some k \<Rightarrow>
             (let w3 = postMessage k MLoad (addListener k (HandleLoad ?p) ?w1)
              in case cb of None \<Rightarrow> w3
                 | Some cb' \<Rightarrow> callCb cb' \<lparr>psStatus = SLoading, psProgress = 0,
                     psMessage = ''Loading FFmpeg...'', psLogs = []\<rparr> w3))
         \<lparr>loadPromise := Some ?p\<rparr>)"
    by (rule abandoned_fields) simp_all
  with a show ?thesis
    by (simp add: load_def split_beta Let_def split: option.splits)
qed

lemma abandoned_awaitLoad:
  "abandoned c w \<Longrightarrow> susPromise s \<noteq> c \<Longrightarrow> abandoned c (awaitLoad out s w)"
  by (cases "outcomeState out w"; cases out)
    (simp_all add: awaitLoad_def abandoned_afterLoad abandoned_settle, simp_all add: abandoned_def)

lemma abandoned_submit: "abandoned c w \<Longrightarrow> abandoned c (snd (submit cmd cb w))"
proof -
  assume a: "abandoned c w"
  note n = abandoned_newPromise [OF a]
  let ?c = "fst (newPromise w)" and ?w1 = "snd (newPromise w)"
  have "abandoned c (snd (load (Some cb) ?w1))" using n by (simp add: abandoned_load)
  from abandoned_awaitLoad [OF this, of "\<lparr>susCmd = cmd, susCallback = cb, susPromise = ?c\<rparr>"] n
  show ?thesis by (simp add: submit_def split_beta)
qed

lemma abandoned_merge: "abandoned c w \<Longrightarrow> abandoned c (snd (merge cs st cb w))"
  using abandoned_newPromise [of c w]
  by (simp add: merge_def split_beta abandoned_submit abandoned_settle)

lemma abandoned_execute:
  "abandoned c w \<Longrightarrow> listenerPromise l \<noteq> c \<Longrightarrow> c' \<noteq> c \<Longrightarrow> abandoned c (execute l cmd c' w)"
  by (simp add: execute_def abandoned_settle abandoned_postMessage abandoned_addListener
      split: option.splits)

lemma abandoned_dispatch:
  "abandoned c w \<Longrightarrow> susPromise s \<noteq> c \<Longrightarrow> abandoned c (dispatch s w)"
  by (simp add: dispatch_def Let_def abandoned_execute abandoned_settle
      split: command.splits option.splits)

lemma abandoned_readDone: "abandoned c w \<Longrightarrow> abandoned c (readDone c' w)"
proof (cases "find (\<lambda>s. susPromise s = c') (reading w)")
  case None
  assume "abandoned c w"
  with None show ?thesis by (simp add: readDone_def)
next
  case (Some s)
  assume a: "abandoned c w"
  from Some have m: "s \<in> set (reading w)" "susPromise s = c'"
    by (auto simp add: find_Some_iff)
  with a have ne: "susPromise s \<noteq> c" by (auto simp add: abandoned_def list_all_iff)
  have "abandoned c (w\<lparr>reading := filter (\<lambda>s. susPromise s \<noteq> c') (reading w)\<rparr>)"
    using a by (auto simp add: abandoned_def list_all_iff)
  from abandoned_dispatch [OF this ne] Some show ?thesis
    by (simp add: readDone_def)
qed

lemma abandoned_step: "abandoned c w \<Longrightarrow> abandoned c (step ev w)"
  by (cases ev)
    (simp_all add: trim_def extractFrames_def convert_def workerError_def abandoned_load
      abandoned_submit abandoned_merge abandoned_terminate abandoned_deliver
      abandoned_timerFires abandoned_readDone)

lemma abandoned_run: "abandoned c w \<Longrightarrow> abandoned c (run evs w)"
  unfolding run_def by (induction evs arbitrary: w) (simp_all add: abandoned_step)

subsection \<open>A command from its posting to its end\<close>

lemma resultListener_promise [simp]: "listenerPromise (resultListener cmd c) = c"
  by (cases cmd) (simp_all add: resultListener_def)

lemma readDone_posts:
  assumes "reading w = [\<lparr>susCmd = cmd, susCallback = cb, susPromise = c\<rparr>]"
    and "worker w = Some k" "k < length (workers w)" "inputsReadable cmd"
  shows "\<exists>m. postedTo k (readDone c w) = postedTo k w @ [MExecute m] \<and> cmdType m = commandKind cmd"
    and "reading (readDone c w) = []"
    and "awaitingLoad (readDone c w) = awaitingLoad w"
    and "timers (readDone c w) = timers w"
    and "blobs (readDone c w) = blobs w"
    and "length (workers (readDone c w)) = length (workers w)"
    and "j \<noteq> k \<Longrightarrow> workers (readDone c w) ! j = workers w ! j"
proof -
  have "(\<exists>m. postedTo k (readDone c w) = postedTo k w @ [MExecute m] \<and> cmdType m = commandKind cmd) \<and>
    reading (readDone c w) = [] \<and> awaitingLoad (readDone c w) = awaitingLoad w \<and>
    timers (readDone c w) = timers w \<and> blobs (readDone c w) = blobs w \<and>
    length (workers (readDone c w)) = length (workers w) \<and>
    (j \<noteq> k \<longrightarrow> workers (readDone c w) ! j = workers w ! j)"
    using assms
    by (cases cmd)
      (auto simp add: readDone_def dispatch_def execute_def addListener_def postMessage_def
        inputsReadable_def commandKind_def postedTo_def Let_def)
  then show "\<exists>m. postedTo k (readDone c w) = postedTo k w @ [MExecute m] \<and> cmdType m = commandKind cmd"
    and "reading (readDone c w) = []"
    and "awaitingLoad (readDone c w) = awaitingLoad w"
    and "timers (readDone c w) = timers w"
    and "blobs (readDone c w) = blobs w"
    and "length (workers (readDone c w)) = length (workers w)"
    and "j \<noteq> k \<Longrightarrow> workers (readDone c w) ! j = workers w ! j"
    by simp_all
qed

lemma onlyLive_nth:
  "onlyLive k w \<Longrightarrow> j < length (workers w) \<Longrightarrow> j \<noteq> k \<Longrightarrow> terminated (workers w ! j)"
  by (auto simp add: onlyLive_def list_all_iff)

lemma handleResult_listeners:
  assumes "worker w = Some k"
    and "l = TrimResult p \<or> l = FramesResult p \<or> l = ConvertResult p \<or> l = MergeResult st p"
    and "rtype r = RError \<or> rtype r = RComplete"
  shows "listenersOf k (runListener l r e w) = removeAll l (listenersOf k w)"
  using assms
  by (auto simp add: trimHandleResult_def framesHandleResult_def convertHandleResult_def
      mergeHandleResult_def listenersOf_removeListener Let_def split_beta split: option.splits)

lemma listenersOf_handleMessage [simp]: "listenersOf k (handleMessage r w) = listenersOf k w"
  by (simp add: listenersOf_def)

lemma deliver_single:
  assumes "k < length (workers w)" "\<not> terminated (workers w ! k)"
    and "listeners (workers w ! k) = [l]"
  shows "deliver k r e w = runListener l r (e l) (handleMessage r w)"
  using assms by (simp add: deliver_def)

lemma abandoned_after_timeout:
  assumes "worker w = Some k" "k < length (workers w)" "onlyLive k w"
    and "reading w = []" "awaitingLoad w = []"
    and "c < length (promises w)" "promises w ! c = Pending"
    and "map_of (timers w) t = Some cb"
  shows "abandoned c (timerFires t w)"
proof -
  have "list_all (\<lambda>wk. terminated wk \<or> list_all (\<lambda>l. listenerPromise l \<noteq> c) (listeners wk))
     ((workers w)[k := (workers w ! k)\<lparr>terminated := True\<rparr>])"
    using onlyLive_nth [OF assms(3)] assms(2)
    by (auto simp add: list_all_length nth_list_update)
  then show ?thesis
    using assms
    by (simp add: abandoned_def timerFires_def terminate_def clearTimeout_def initWorker_def
        callCb_def Let_def split: option.splits)
qed

text \<open>
  C1, as amended. Take a command whose file has been read, on a client whose worker
  is idle. The command is posted to the worker with its listener registered, and its
  promise is pending. An error event then rejects the promise with the engine's
  message, and a complete event that carries the output resolves it; on either event
  the listener is removed from the worker in the same handler, so that no later event
  reaches it. Any other message leaves the promise pending and the listener in
  place. Once the promise is settled no run of events changes it, so at most one of
  \<open>resolve\<close> and \<open>reject\<close> takes effect. If instead a timer of the client expires
  first, the promise stays pending through every run of events that follows: neither
  fires.
\<close>

theorem dispatched_call_settles_at_most_once:
  assumes "reading w = [\<lparr>susCmd = cmd, susCallback = cb, susPromise = c\<rparr>]"
    and "awaitingLoad w = []"
    and "worker w = Some k" "k < length (workers w)" "\<not> terminated (workers w ! k)"
    and "listeners (workers w ! k) = []" "onlyLive k w"
    and "inputsReadable cmd" "c < length (promises w)" "promises w ! c = Pending"
  shows "(let w1 = readDone c w; l = resultListener cmd c
          in (\<exists>m. postedTo k w1 = postedTo k w @ [MExecute m] \<and> cmdType m = commandKind cmd) \<and>
             listenersOf k w1 = [l] \<and> promises w1 ! c = Pending \<and>
             (rtype r = RError \<longrightarrow>
                promises (deliver k r e w1) ! c = Rejected (errorMessage (payloadError r)) \<and>
                listenersOf k (deliver k r e w1) = []) \<and>
             (rtype r = RComplete \<longrightarrow>
                listenersOf k (deliver k r e w1) = [] \<and>
                (hasOutput l r \<longrightarrow>
                   (\<exists>res. promises (deliver k r e w1) ! c = Resolved (VResult res)))) \<and>
             (rtype r \<noteq> RError \<longrightarrow> rtype r \<noteq> RComplete \<longrightarrow>
                promises (deliver k r e w1) ! c = Pending \<and>
                listenersOf k (deliver k r e w1) = [l]) \<and>
             (promises (deliver k r e w1) ! c \<noteq> Pending \<longrightarrow>
                (\<forall>evs. promises (run evs (deliver k r e w1)) ! c = promises (deliver k r e w1) ! c)) \<and>
             (\<forall>t cb'. map_of (timers w1) t = Some cb' \<longrightarrow>
                (\<forall>evs. promises (run evs (timerFires t w1)) ! c = Pending)))"
proof -
  let ?w1 = "readDone c w"
  let ?l = "resultListener cmd c"
  let ?wm = "handleMessage r ?w1"
  note d = readDone_dispatches [OF assms(1,3,4,5,6,8)]
  note p = readDone_posts [OF assms(1,3,4,8)]
  have lo: "listenersOf k ?w1 = [?l]" using d(3,5) by (simp add: listenersOf_def)
  have pc: "c < length (promises ?w1)" "promises ?w1 ! c = Pending"
    using d(1) assms(9,10) by simp_all
  have dl: "deliver k r e ?w1 = runListener ?l r (e ?l) ?wm"
    by (rule deliver_single [OF d(3,4,5)])
  have wm: "worker ?wm = Some k" "c < length (promises ?wm)" "promises ?wm ! c = Pending"
    "listenersOf k ?wm = [?l]"
    using d(2) pc lo by simp_all
  note rc = resultListener_cases [of cmd c]
  have e1: "promises (deliver k r e ?w1) ! c = Rejected (errorMessage (payloadError r)) \<and>
      listenersOf k (deliver k r e ?w1) = []" if "rtype r = RError"
    using handleResult_rejects [OF wm(2,3) rc that, of "e ?l"]
      handleResult_listeners [OF wm(1) rc, of r "e ?l"] that wm(4)
    by (simp add: dl)
  have e2: "listenersOf k (deliver k r e ?w1) = []" if "rtype r = RComplete"
    using handleResult_listeners [OF wm(1) rc, of r "e ?l"] that wm(4) by (simp add: dl)
  have e3: "\<exists>res. promises (deliver k r e ?w1) ! c = Resolved (VResult res)"
    if "rtype r = RComplete" "hasOutput ?l r"
    using handleResult_resolves [OF wm(2,3) rc that, of "e ?l"] by (simp add: dl)
  have e4: "promises (deliver k r e ?w1) ! c = Pending \<and> listenersOf k (deliver k r e ?w1) = [?l]"
    if "rtype r \<noteq> RError" "rtype r \<noteq> RComplete"
    using handleResult_ignores [OF rc that, of "e ?l" ?wm] wm(3,4) by (simp add: dl)
  have len: "c < length (promises (deliver k r e ?w1))"
    using keeps_deliver [of ?w1 k r e] pc(1) by (simp add: keeps_def)
  have e5: "promises (run evs (deliver k r e ?w1)) ! c = promises (deliver k r e ?w1) ! c"
    if "promises (deliver k r e ?w1) ! c \<noteq> Pending" for evs
    by (rule settled_stays [OF len that])
  have ol: "onlyLive k ?w1"
  proof -
    have "j = k \<or> terminated (workers ?w1 ! j)" if "j < length (workers ?w1)" for j
    proof (cases "j = k")
      case True
      then show ?thesis by simp
    next
      case False
      from onlyLive_nth [OF assms(7) _ False] that p(6) have "terminated (workers w ! j)" by simp
      with p(7) [OF False] show ?thesis by simp
    qed
    then show ?thesis by (simp add: onlyLive_def list_all_iff)
  qed
  have e6: "promises (run evs (timerFires t ?w1)) ! c = Pending"
    if "map_of (timers ?w1) t = Some cb'" for t cb' evs
  proof -
    have "awaitingLoad ?w1 = []" using p(3) assms(2) by simp
    from abandoned_after_timeout [OF d(2,3) ol p(2) this pc that]
    have "abandoned c (timerFires t ?w1)" .
    from abandoned_pending [OF abandoned_run [OF this]] show ?thesis .
  qed
  from p(1) lo pc(2) e1 e2 e3 e4 e5 e6 show ?thesis
    unfolding Let_def by blast
qed

lemma blobs_simple [simp]:
  "blobs (removeListener l w) = blobs w"
  "blobs (handleMessage r w) = blobs w"
  by (cases "rtype r"; simp add: removeListener_def handleMessage_def callCb_def clearTimeout_def
      Let_def split: option.splits)+

lemma single_materialize_blobs:
  "blobs (snd (trimMaterialize d e w)) =
     blobs w @ [(objectUrl (fst (trimMaterialize d e w)), \<lparr>blobParts = d, blobType = ''video/mp4''\<rparr>)]"
  "blobs (snd (convertMaterialize d e w)) =
     blobs w @ [(objectUrl (fst (convertMaterialize d e w)), \<lparr>blobParts = d, blobType = ''video/webm''\<rparr>)]"
  "blobs (snd (mergeMaterialize st d e w)) =
     blobs w @ [(objectUrl (fst (mergeMaterialize st d e w)),
                 \<lparr>blobParts = d,
                  blobType = (case format st of Mp4 \<Rightarrow> ''video/mp4'' | Webm \<Rightarrow> ''video/webm'')\<rparr>)]"
  "resType (fst (trimMaterialize d e w)) = Trim \<and> resData (fst (trimMaterialize d e w)) = d"
  "resType (fst (convertMaterialize d e w)) = Convert \<and> resData (fst (convertMaterialize d e w)) = d"
  "resType (fst (mergeMaterialize st d e w)) = Merge \<and> resData (fst (mergeMaterialize st d e w)) = d"
  by (cases "format st"; simp add: trimMaterialize_def convertMaterialize_def mergeMaterialize_def
      createObjectURL_def Let_def)+

lemma frames_materialize_blobs:
  "\<exists>fds. resFrames (fst (framesMaterialize fs e w)) = Some fds \<and>
     map (\<lambda>fd. (frameName fd, frameBytes fd)) fds = fs \<and>
     blobs (snd (framesMaterialize fs e w)) = blobs w @
       map (\<lambda>fd. (frameUrl fd, \<lparr>blobParts = frameBytes fd, blobType = ''image/jpeg''\<rparr>)) fds"
  "resType (fst (framesMaterialize fs e w)) = Frames \<and> objectUrl (fst (framesMaterialize fs e w)) = []"
proof -
  obtain fds w1 where f: "frameUrls fs w = (fds, w1)" by (cases "frameUrls fs w")
  from frameUrls_blobs [OF f]
  show "\<exists>fds. resFrames (fst (framesMaterialize fs e w)) = Some fds \<and>
     map (\<lambda>fd. (frameName fd, frameBytes fd)) fds = fs \<and>
     blobs (snd (framesMaterialize fs e w)) = blobs w @
       map (\<lambda>fd. (frameUrl fd, \<lparr>blobParts = frameBytes fd, blobType = ''image/jpeg''\<rparr>)) fds"
    by (simp add: framesMaterialize_def f)
  show "resType (fst (framesMaterialize fs e w)) = Frames \<and> objectUrl (fst (framesMaterialize fs e w)) = []"
    by (simp add: framesMaterialize_def split_beta)
qed

lemma trim_complete:
  assumes "p < length (promises w)" "promises w ! p = Pending" "rtype r = RComplete"
    and "payloadData r = Some d"
  shows "\<exists>res. promises (trimHandleResult p r e w) ! p = Resolved (VResult res) \<and>
     resType res = Trim \<and> resData res = d \<and>
     blobs (trimHandleResult p r e w) =
       blobs w @ [(objectUrl res, \<lparr>blobParts = d, blobType = ''video/mp4''\<rparr>)]"
  using assms single_materialize_blobs(1,4) [of d e "removeListener (TrimResult p) w"]
  by (simp add: trimHandleResult_def Let_def split_beta settle_pending)

lemma convert_complete:
  assumes "p < length (promises w)" "promises w ! p = Pending" "rtype r = RComplete"
    and "payloadData r = Some d"
  shows "\<exists>res. promises (convertHandleResult p r e w) ! p = Resolved (VResult res) \<and>
     resType res = Convert \<and> resData res = d \<and>
     blobs (convertHandleResult p r e w) =
       blobs w @ [(objectUrl res, \<lparr>blobParts = d, blobType = ''video/webm''\<rparr>)]"
  using assms single_materialize_blobs(2,5) [of d e "removeListener (ConvertResult p) w"]
  by (simp add: convertHandleResult_def Let_def split_beta settle_pending)

lemma merge_complete:
  assumes "p < length (promises w)" "promises w ! p = Pending" "rtype r = RComplete"
    and "payloadData r = Some d"
  shows "\<exists>res. promises (mergeHandleResult st p r e w) ! p = Resolved (VResult res) \<and>
     resType res = Merge \<and> resData res = d \<and>
     blobs (mergeHandleResult st p r e w) =
       blobs w @ [(objectUrl res,
                   \<lparr>blobParts = d,
                    blobType = (case format st of Mp4 \<Rightarrow> ''video/mp4'' | Webm \<Rightarrow> ''video/webm'')\<rparr>)]"
  using assms single_materialize_blobs(3,6) [of st d e "removeListener (MergeResult st p) w"]
  by (simp add: mergeHandleResult_def Let_def split_beta settle_pending)

lemma frames_complete:
  assumes "p < length (promises w)" "promises w ! p = Pending" "rtype r = RComplete"
    and "payloadFrames r = Some fs"
  shows "\<exists>res fds. promises (framesHandleResult p r e w) ! p = Resolved (VResult res) \<and>
     resType res = Frames \<and> objectUrl res = [] \<and> resFrames res = Some fds \<and>
     map (\<lambda>fd. (frameName fd, frameBytes fd)) fds = fs \<and>
     blobs (framesHandleResult p r e w) = blobs w @
       map (\<lambda>fd. (frameUrl fd, \<lparr>blobParts = frameBytes fd, blobType = ''image/jpeg''\<rparr>)) fds"
  using assms frames_materialize_blobs [of fs e "removeListener (FramesResult p) w"]
  by (simp add: framesHandleResult_def Let_def split_beta settle_pending)

text \<open>
  C8. Take a command whose file has been read, on a client whose worker is idle, and
  let the worker answer it with a complete event. The promise of the command is then
  resolved with a result of the kind of the command, and the URL of the result
  addresses a blob of the media type of that kind: video/mp4 for trim and for an mp4
  merge, video/webm for convert and for a webm merge. A frame set is resolved with one
  image/jpeg URL per frame, in the order of the frames, and the empty string as its
  own URL.
\<close>

theorem resolved_result_media_types:
  assumes "reading w = [\<lparr>susCmd = cmd, susCallback = cb, susPromise = c\<rparr>]"
    and "worker w = Some k" "k < length (workers w)" "\<not> terminated (workers w ! k)"
    and "listeners (workers w ! k) = []" "inputsReadable cmd"
    and "c < length (promises w)" "promises w ! c = Pending" "rtype r = RComplete"
  shows "(let w' = deliver k r e (readDone c w)
          in case cmd of
               CmdTrim f st \<Rightarrow>
                 (\<forall>d. payloadData r = Some d \<longrightarrow>
                    (\<exists>res. promises w' ! c = Resolved (VResult res) \<and>
                       resType res = Trim \<and> resData res = d \<and>
                       blobs w' = blobs w @
                         [(objectUrl res, \<lparr>blobParts = d, blobType = ''video/mp4''\<rparr>)]))
             | CmdFrames f st \<Rightarrow>
                 (\<forall>fs. payloadFrames r = Some fs \<longrightarrow>
                    (\<exists>res fds. promises w' ! c = Resolved (VResult res) \<and>
                       resType res = Frames \<and> objectUrl res = [] \<and> resFrames res = Some fds \<and>
                       map (\<lambda>fd. (frameName fd, frameBytes fd)) fds = fs \<and>
                       blobs w' = blobs w @
                         map (\<lambda>fd. (frameUrl fd,
                                    \<lparr>blobParts = frameBytes fd, blobType = ''image/jpeg''\<rparr>)) fds))
             | CmdConvert f st \<Rightarrow>
                 (\<forall>d. payloadData r = Some d \<longrightarrow>
                    (\<exists>res. promises w' ! c = Resolved (VResult res) \<and>
                       resType res = Convert \<and> resData res = d \<and>
                       blobs w' = blobs w @
                         [(objectUrl res, \<lparr>blobParts = d, blobType = ''video/webm''\<rparr>)]))
             | CmdMerge cs st \<Rightarrow>
                 (\<forall>d. payloadData r = Some d \<longrightarrow>
                    (\<exists>res. promises w' ! c = Resolved (VResult res) \<and>
                       resType res = Merge \<and> resData res = d \<and>
                       blobs w' = blobs w @
                         [(objectUrl res,
                           \<lparr>blobParts = d,
                            blobType = (case format st of Mp4 \<Rightarrow> ''video/mp4''
                                        | Webm \<Rightarrow> ''video/webm'')\<rparr>)])))"
proof -
  let ?w1 = "readDone c w"
  let ?l = "resultListener cmd c"
  let ?wm = "handleMessage r ?w1"
  note d = readDone_dispatches [OF assms(1,2,3,4,5,6)]
  note p = readDone_posts [OF assms(1,2,3,6)]
  have dl: "deliver k r e ?w1 = runListener ?l r (e ?l) ?wm"
    by (rule deliver_single [OF d(3,4,5)])
  have wm: "c < length (promises ?wm)" "promises ?wm ! c = Pending" "blobs ?wm = blobs w"
    using d(1) p(5) assms(7,8) by simp_all
  show ?thesis
  proof (cases cmd)
    case (CmdTrim f st)
    then show ?thesis
      using trim_complete [OF wm(1,2) assms(9), of _ "e ?l"] wm(3)
      by (simp add: Let_def dl resultListener_def)
  next
    case (CmdFrames f st)
    then show ?thesis
      using frames_complete [OF wm(1,2) assms(9), of _ "e ?l"] wm(3)
      by (simp add: Let_def dl resultListener_def)
  next
    case (CmdConvert f st)
    then show ?thesis
      using convert_complete [OF wm(1,2) assms(9), of _ "e ?l"] wm(3)
      by (simp add: Let_def dl resultListener_def)
  next
    case (CmdMerge cs st)
    then show ?thesis
      using merge_complete [OF wm(1,2) assms(9), of _ st "e ?l"] wm(3)
      by (simp add: Let_def dl resultListener_def)
  qed
qed

lemma readingClient_eq:
  "readingClient =
     \<lparr>worker = Some 0, isLoaded = True, loadPromise = Some 0, currentCallback = Some 7,
      logs = [], timeoutId = Some 0, sab = True,
      workers = [\<lparr>listeners = [], posted = [MLoad], terminated = False\<rparr>],
      promises = [Resolved VUnit, Pending], timers = [(0, 7)], nextTimer = 1, blobs = [],
      trace = [(7, \<lparr>psStatus = SLoading, psProgress = 0, psMessage = ''Loading FFmpeg...'',
                    psLogs = []\<rparr>)],
      awaitingLoad = [],
      reading = [\<lparr>susCmd = CmdTrim (Readable [1, 2, 3]) trimSettings0, susCallback = 7,
                  susPromise = 1\<rparr>]\<rparr>"
  by (simp add: readingClient_def loadedClient_eq run_defs)

lemma readingClient_dispatched: "readDone 1 readingClient = dispatchedClient"
  by (simp add: readingClient_def dispatchedClient_def run_def)

lemma readingClient_facts:
  "reading readingClient =
     [\<lparr>susCmd = CmdTrim (Readable [1, 2, 3]) trimSettings0, susCallback = 7, susPromise = 1\<rparr>]"
  "awaitingLoad readingClient = []"
  "worker readingClient = Some 0" "0 < length (workers readingClient)"
  "\<not> terminated (workers readingClient ! 0)" "listeners (workers readingClient ! 0) = []"
  "onlyLive 0 readingClient"
  "inputsReadable (CmdTrim (Readable [1, 2, 3]) trimSettings0)"
  "1 < length (promises readingClient)" "promises readingClient ! 1 = Pending"
  by (simp_all add: readingClient_eq onlyLive_def inputsReadable_def fileBytes_def)

lemma response_facts:
  "rtype (completeResponse d) = RComplete" "payloadData (completeResponse d) = Some d"
  "rtype (errorResponse m) = RError" "errorMessage (payloadError (errorResponse m)) = m"
  "rtype loadedResponse = RLoaded"
  by (simp_all add: completeResponse_def errorResponse_def loadedResponse_def payloadData_def
      payloadError_def errorMessage_def emptyPayload_def)

theorem dispatched_call_settles_at_most_once_witness:
  "reading readingClient =
     [\<lparr>susCmd = CmdTrim (Readable [1, 2, 3]) trimSettings0, susCallback = 7, susPromise = 1\<rparr>] \<and>
   awaitingLoad readingClient = [] \<and>
   worker readingClient = Some 0 \<and> 0 < length (workers readingClient) \<and>
   \<not> terminated (workers readingClient ! 0) \<and> listeners (workers readingClient ! 0) = [] \<and>
   onlyLive 0 readingClient \<and>
   inputsReadable (CmdTrim (Readable [1, 2, 3]) trimSettings0) \<and>
   1 < length (promises readingClient) \<and> promises readingClient ! 1 = Pending \<and>
   listenersOf 0 dispatchedClient = [TrimResult 1] \<and>
   promises (deliver 0 (errorResponse ''Conversion failed'') envs0 dispatchedClient) ! 1 =
     Rejected ''Conversion failed'' \<and>
   listenersOf 0 (deliver 0 (errorResponse ''Conversion failed'') envs0 dispatchedClient) = [] \<and>
   (\<exists>res. promises (deliver 0 (completeResponse [9, 9]) envs0 dispatchedClient) ! 1 =
      Resolved (VResult res)) \<and>
   listenersOf 0 (deliver 0 (completeResponse [9, 9]) envs0 dispatchedClient) = [] \<and>
   promises (deliver 0 loadedResponse envs0 dispatchedClient) ! 1 = Pending \<and>
   promises (run [Message 0 (completeResponse [9, 9]) envs0,
                  Message 1 (completeResponse [9, 9]) envs0]
              (timerFires 0 dispatchedClient)) ! 1 = Pending"
proof -
  note a = readingClient_facts
  have t: "map_of (timers dispatchedClient) 0 = Some 7"
    by (simp add: dispatchedClient_eq)
  have h: "hasOutput (TrimResult 1) (completeResponse [9, 9])"
    by (simp add: response_facts)
  have l: "resultListener (CmdTrim (Readable [1, 2, 3]) trimSettings0) 1 = TrimResult 1"
    by (simp add: resultListener_def)
  note th = dispatched_call_settles_at_most_once [OF a, unfolded Let_def readingClient_dispatched l]
  from th [of "errorResponse ''Conversion failed''" envs0]
  have e: "promises (deliver 0 (errorResponse ''Conversion failed'') envs0 dispatchedClient) ! 1 =
      Rejected ''Conversion failed''"
    "listenersOf 0 (deliver 0 (errorResponse ''Conversion failed'') envs0 dispatchedClient) = []"
    "listenersOf 0 dispatchedClient = [TrimResult 1]"
    by (simp_all add: response_facts)
  from th [of "completeResponse [9, 9]" envs0] h
  have c: "\<exists>res. promises (deliver 0 (completeResponse [9, 9]) envs0 dispatchedClient) ! 1 =
      Resolved (VResult res)"
    "listenersOf 0 (deliver 0 (completeResponse [9, 9]) envs0 dispatchedClient) = []"
    by (simp_all add: response_facts)
  from th [of loadedResponse envs0]
  have o: "promises (deliver 0 loadedResponse envs0 dispatchedClient) ! 1 = Pending"
    by (simp add: response_facts)
  from th [of loadedResponse envs0] t
  have f: "promises (run [Message 0 (completeResponse [9, 9]) envs0,
                  Message 1 (completeResponse [9, 9]) envs0]
              (timerFires 0 dispatchedClient)) ! 1 = Pending"
    by blast
  from a e c o f show ?thesis by simp
qed

theorem resolved_result_media_types_witness:
  "reading readingClient =
     [\<lparr>susCmd = CmdTrim (Readable [1, 2, 3]) trimSettings0, susCallback = 7, susPromise = 1\<rparr>] \<and>
   worker readingClient = Some 0 \<and> 0 < length (workers readingClient) \<and>
   \<not> terminated (workers readingClient ! 0) \<and> listeners (workers readingClient ! 0) = [] \<and>
   inputsReadable (CmdTrim (Readable [1, 2, 3]) trimSettings0) \<and>
   1 < length (promises readingClient) \<and> promises readingClient ! 1 = Pending \<and>
   rtype (completeResponse [9, 9]) = RComplete \<and>
   payloadData (completeResponse [9, 9]) = Some [9, 9] \<and>
   (\<exists>res. promises (deliver 0 (completeResponse [9, 9]) envs0 dispatchedClient) ! 1 =
            Resolved (VResult res) \<and>
          resType res = Trim \<and> resData res = [9, 9] \<and>
          blobs (deliver 0 (completeResponse [9, 9]) envs0 dispatchedClient) =
            [(objectUrl res, \<lparr>blobParts = [9, 9], blobType = ''video/mp4''\<rparr>)])"
proof -
  note a = readingClient_facts(1,3,4,5,6,8,9,10)
  have b: "blobs readingClient = []" by (simp add: readingClient_eq)
  from resolved_result_media_types [OF a response_facts(1), of "[9, 9]" envs0,
      unfolded Let_def readingClient_dispatched]
  have "\<exists>res. promises (deliver 0 (completeResponse [9, 9]) envs0 dispatchedClient) ! 1 =
            Resolved (VResult res) \<and>
          resType res = Trim \<and> resData res = [9, 9] \<and>
          blobs (deliver 0 (completeResponse [9, 9]) envs0 dispatchedClient) =
            [(objectUrl res, \<lparr>blobParts = [9, 9], blobType = ''video/mp4''\<rparr>)]"
    by (simp add: response_facts b)
  with a response_facts(1,2) [of "[9, 9]"] show ?thesis by simp
qed

end
